theory Spec2Isabelle
  imports Complex_Main "HOL-Library.Sublist"
begin

section \<open>ABLFieldInit: initial fields of the atmospheric boundary layer\<close>

text \<open>
  A shallow embedding of \<^verbatim>\<open>amr-wind/wind_energy/ABLFieldInit.cpp\<close>.

  \<^verbatim>\<open>amrex::Real\<close> is modelled as the type \<open>real\<close>: the arithmetic of the model is exact,
  rounding, overflow and NaN are not represented. A quotient with divisor zero is an
  infinity or a NaN in the program; \<open>real\<close> has neither, so such a quotient is the fault
  \<open>DivisionByZero\<close> of the model, raised where the quotient is first read. A read of an
  array outside its size is undefined in C++; it is the fault \<open>OutOfBounds\<close>.
\<close>

type_synonym Real = real

datatype fault = OutOfBounds | DivisionByZero

text \<open>
  Sequencing of computations that may fail (a fault of the kernel, an abort of the
  constructor): the first failure ends the computation.
\<close>

definition bind_f :: "'e + 'a \<Rightarrow> ('a \<Rightarrow> 'e + 'b) \<Rightarrow> 'e + 'b" where
  "bind_f m k = (case m of Inl e \<Rightarrow> Inl e | Inr v \<Rightarrow> k v)"

text \<open>\<^verbatim>\<open>xs[i]\<close> on a vector or on the pointer to its data.\<close>

definition read_at :: "'a list \<Rightarrow> nat \<Rightarrow> fault + 'a" where
  "read_at xs i = (if i < length xs then Inr (xs ! i) else Inl OutOfBounds)"

text \<open>\<^verbatim>\<open>a / b\<close> on \<^verbatim>\<open>amrex::Real\<close>.\<close>

definition rdiv :: "Real \<Rightarrow> Real \<Rightarrow> fault + Real" where
  "rdiv a b = (if b = 0 then Inl DivisionByZero else Inr (a / b))"

subsection \<open>The temperature profile (lines 113--120)\<close>

text \<open>
  The body of the loop over \<^verbatim>\<open>iz\<close>: the two comparisons are joined by \<^verbatim>\<open>&&\<close>, so
  \<^verbatim>\<open>th[iz + 1]\<close> is read only when the first holds, and the values and the slope only
  when both hold.
\<close>

definition theta_step :: "Real list \<Rightarrow> Real list \<Rightarrow> Real \<Rightarrow> nat \<Rightarrow> Real \<Rightarrow> fault + Real" where
  "theta_step th tv z iz theta =
     bind_f (read_at th iz) (\<lambda>th_iz.
       if z > th_iz then
         bind_f (read_at th (iz + 1)) (\<lambda>th_iz1.
           if z \<le> th_iz1 then
             bind_f (read_at tv (iz + 1)) (\<lambda>tv_iz1.
             bind_f (read_at tv iz) (\<lambda>tv_iz.
             bind_f (rdiv (tv_iz1 - tv_iz) (th_iz1 - th_iz)) (\<lambda>slope.
               Inr (tv_iz + (z - th_iz) * slope))))
           else Inr theta)
       else Inr theta)"

text \<open>The loop, over the values that \<^verbatim>\<open>iz\<close> takes, in order.\<close>

fun theta_loop :: "Real list \<Rightarrow> Real list \<Rightarrow> Real \<Rightarrow> nat list \<Rightarrow> Real \<Rightarrow> fault + Real" where
  "theta_loop th tv z [] theta = Inr theta"
| "theta_loop th tv z (iz # izs) theta =
     bind_f (theta_step th tv z iz theta) (theta_loop th tv z izs)"

text \<open>
  \<^verbatim>\<open>theta = tv[0]; for (int iz = 0; iz < ntvals - 1; ++iz) ...\<close>. With \<^verbatim>\<open>ntvals = 0\<close>
  the bound is \<open>-1\<close> in the program and \<open>0\<close> here (subtraction on \<open>nat\<close> stops at zero):
  the loop body does not run in either.
\<close>

definition profile_theta :: "Real list \<Rightarrow> Real list \<Rightarrow> nat \<Rightarrow> Real \<Rightarrow> fault + Real" where
  "profile_theta th tv ntvals z =
     bind_f (read_at tv 0) (\<lambda>theta. theta_loop th tv z [0..<ntvals - 1] theta)"

subsection \<open>Boxes, geometry and array views\<close>

text \<open>
  A cell index \<^verbatim>\<open>(i, j, k)\<close>; the indices are \<^verbatim>\<open>int\<close> in the program and enter the
  arithmetic only through \<^verbatim>\<open>i + 0.5\<close>, so they are unbounded integers here.
\<close>

type_synonym cell = "int \<times> int \<times> int"

record Box =
  smallEnd :: cell
  bigEnd :: cell

definition contains :: "Box \<Rightarrow> cell \<Rightarrow> bool" where
  "contains bx c =
     (case (smallEnd bx, c, bigEnd bx) of ((ilo, jlo, klo), (i, j, k), (ihi, jhi, khi)) \<Rightarrow>
        ilo \<le> i \<and> i \<le> ihi \<and> jlo \<le> j \<and> j \<le> jhi \<and> klo \<le> k \<and> k \<le> khi)"

text \<open>
  The cells of a box in the order in which \<^verbatim>\<open>amrex::ParallelFor\<close> and
  \<^verbatim>\<open>amrex::ParallelForRNG\<close> call the kernel on the host: \<^verbatim>\<open>k\<close> outermost, \<^verbatim>\<open>i\<close>
  innermost.
\<close>

definition box_cells :: "Box \<Rightarrow> cell list" where
  "box_cells bx =
     (case (smallEnd bx, bigEnd bx) of ((ilo, jlo, klo), (ihi, jhi, khi)) \<Rightarrow>
        concat (map (\<lambda>k. concat (map (\<lambda>j. map (\<lambda>i. (i, j, k)) [ilo..ihi]) [jlo..jhi])) [klo..khi]))"

text \<open>\<^verbatim>\<open>amrex::grow(bx, n)\<close>: the box enlarged by \<open>n\<close> cells on every side.\<close>

definition grow :: "Box \<Rightarrow> int \<Rightarrow> Box" where
  "grow bx n =
     (case (smallEnd bx, bigEnd bx) of ((ilo, jlo, klo), (ihi, jhi, khi)) \<Rightarrow>
        \<lparr>smallEnd = (ilo - n, jlo - n, klo - n), bigEnd = (ihi + n, jhi + n, khi + n)\<rparr>)"

text \<open>
  \<^verbatim>\<open>amrex::Geometry\<close>, reduced to the three arrays the code asks for; each has the
  indices 0, 1, 2.
\<close>

record Geometry =
  CellSizeArray :: "nat \<Rightarrow> Real"
  ProbLoArray :: "nat \<Rightarrow> Real"
  ProbHiArray :: "nat \<Rightarrow> Real"

text \<open>
  \<^verbatim>\<open>amrex::Array4<amrex::Real>\<close>: a view addressed by a cell and a component;
  \<^verbatim>\<open>a(i, j, k)\<close> is component 0. The view is total here: that it covers the box it is
  used on is the caller's side of the interface.
\<close>

type_synonym Array4 = "cell \<times> nat \<Rightarrow> Real"

text \<open>
  A \<^verbatim>\<open>MultiFab\<close> is a sequence of array boxes, each with the box of the cells it owns
  and its data (which also holds the ghost cells around that box).
\<close>

record FArrayBox =
  validbox :: Box
  array :: Array4

type_synonym MultiFab = "FArrayBox list"

subsection \<open>The initializer and its configuration\<close>

record ABLFieldInit =
  m_theta_heights :: "Real list"
  m_theta_values :: "Real list"
  m_thht_d :: "Real list"
  m_thvv_d :: "Real list"
  m_perturb_vel :: bool
  m_ref_height :: Real
  m_Uperiods :: Real
  m_Vperiods :: Real
  m_deltaU :: Real
  m_deltaV :: Real
  m_perturb_theta :: bool
  m_theta_gauss_mean :: Real
  m_theta_gauss_var :: Real
  m_theta_cutoff_height :: Real
  m_deltaT :: Real
  m_tke_init :: Real
  m_rho :: Real
  m_vel_timetable :: string
  m_vel_speed :: Real
  m_vel_dir :: Real
  m_vel_rad :: Real
  m_vel :: "Real list"

text \<open>
  The entries of the input database that the constructor reads through
  \<^verbatim>\<open>amrex::ParmParse\<close>, under the prefixes \<^verbatim>\<open>ABL\<close> and \<^verbatim>\<open>incflo\<close>; \<open>None\<close> is a key
  that the input does not have.
\<close>

record ParmParse =
  ABL_temperature_heights :: "Real list option"
  ABL_temperature_values :: "Real list option"
  ABL_perturb_velocity :: "bool option"
  ABL_perturb_ref_height :: "Real option"
  ABL_Uperiods :: "Real option"
  ABL_Vperiods :: "Real option"
  ABL_deltaU :: "Real option"
  ABL_deltaV :: "Real option"
  ABL_perturb_temperature :: "bool option"
  ABL_random_gauss_mean :: "Real option"
  ABL_random_gauss_var :: "Real option"
  ABL_cutoff_height :: "Real option"
  ABL_theta_amplitude :: "Real option"
  ABL_init_tke :: "Real option"
  ABL_velocity_timetable :: "string option"
  incflo_density :: "Real option"
  incflo_velocity :: "Real list option"

text \<open>
  The ways the constructor ends the process: \<^verbatim>\<open>amrex::Abort\<close> with its message,
  \<^verbatim>\<open>AMREX_ALWAYS_ASSERT\<close> with the text of the condition that failed, and a
  \<^verbatim>\<open>get\<close> or \<^verbatim>\<open>getarr\<close> of \<^verbatim>\<open>ParmParse\<close> on a key that the input does not have.
\<close>

datatype abort = Abort string | AssertionFailed string | KeyNotFound string

text \<open>
  \<^verbatim>\<open>ParmParse::query\<close> leaves the variable as it is when the key is absent;
  \<^verbatim>\<open>get\<close> and \<^verbatim>\<open>getarr\<close> require the key.
\<close>

definition query :: "'a option \<Rightarrow> 'a \<Rightarrow> 'a" where
  "query entry ref = (case entry of None \<Rightarrow> ref | Some v \<Rightarrow> v)"

definition get :: "string \<Rightarrow> 'a option \<Rightarrow> abort + 'a" where
  "get name entry = (case entry of None \<Rightarrow> Inl (KeyNotFound name) | Some v \<Rightarrow> Inr v)"

definition getarr :: "string \<Rightarrow> 'a list option \<Rightarrow> abort + 'a list" where
  "getarr name entry = (case entry of None \<Rightarrow> Inl (KeyNotFound name) | Some v \<Rightarrow> Inr v)"

text \<open>
  The file system as the constructor sees it: a path has no readable file (\<open>None\<close>), or
  a file, given by the numbers that are its whitespace-separated fields. \<^verbatim>\<open>ifh >> x\<close>
  takes the next field; when there is none the extraction fails and \<^verbatim>\<open>x\<close> keeps its
  value, as do all later ones. Fields that are not numbers are outside this model.
\<close>

type_synonym files = "string \<Rightarrow> Real list option"

definition stream_extract :: "Real list \<Rightarrow> Real \<Rightarrow> Real \<times> Real list" where
  "stream_extract toks x = (case toks of [] \<Rightarrow> (x, []) | v # rest \<Rightarrow> (v, rest))"

text \<open>
  Modelled from the spec: \<^verbatim>\<open>utils::radians\<close> of \<^verbatim>\<open>amr-wind/utilities/trig_ops.H\<close>, which
  is not among the sources: ``direction is converted from degrees to radians''.
\<close>

definition radians :: "Real \<Rightarrow> Real" where
  "radians deg_val = deg_val * pi / 180"

text \<open>\<^verbatim>\<open>v.resize(n)\<close> and \<^verbatim>\<open>amrex::Gpu::copy\<close> of a whole vector onto the start of another.\<close>

definition resize :: "nat \<Rightarrow> Real list \<Rightarrow> Real list" where
  "resize n v = take n v @ replicate (n - length v) 0"

definition copy :: "Real list \<Rightarrow> Real list \<Rightarrow> Real list" where
  "copy src dst = src @ drop (length src) dst"

text \<open>
  The constructor (lines 10--63). \<open>init\<close> is the object as its default member
  initializers leave it: they are in the header, which is not among the sources. The
  local \<^verbatim>\<open>m_vel_time\<close> is read from the file and not used.
\<close>

definition ABLFieldInit_ctor :: "ABLFieldInit \<Rightarrow> ParmParse \<Rightarrow> files \<Rightarrow> abort + ABLFieldInit" where
  "ABLFieldInit_ctor init pp fs =
     bind_f (getarr ''temperature_heights'' (ABL_temperature_heights pp)) (\<lambda>heights.
     bind_f (getarr ''temperature_values'' (ABL_temperature_values pp)) (\<lambda>vals.
     if length heights \<noteq> length vals
     then Inl (AssertionFailed ''m_theta_heights.size() == m_theta_values.size()'')
     else
       let num_theta_values = length heights;
           this = init
             \<lparr> m_theta_heights := heights,
               m_theta_values := vals,
               m_perturb_vel := query (ABL_perturb_velocity pp) (m_perturb_vel init),
               m_ref_height := query (ABL_perturb_ref_height pp) (m_ref_height init),
               m_Uperiods := query (ABL_Uperiods pp) (m_Uperiods init),
               m_Vperiods := query (ABL_Vperiods pp) (m_Vperiods init),
               m_deltaU := query (ABL_deltaU pp) (m_deltaU init),
               m_deltaV := query (ABL_deltaV pp) (m_deltaV init),
               m_perturb_theta := query (ABL_perturb_temperature pp) (m_perturb_theta init),
               m_theta_gauss_mean := query (ABL_random_gauss_mean pp) (m_theta_gauss_mean init),
               m_theta_gauss_var := query (ABL_random_gauss_var pp) (m_theta_gauss_var init),
               m_theta_cutoff_height := query (ABL_cutoff_height pp) (m_theta_cutoff_height init),
               m_deltaT := query (ABL_theta_amplitude pp) (m_deltaT init),
               m_tke_init := query (ABL_init_tke pp) (m_tke_init init) \<rparr>
       in
       bind_f (get ''density'' (incflo_density pp)) (\<lambda>rho.
       let this = this
             \<lparr> m_rho := rho,
               m_vel_timetable := query (ABL_velocity_timetable pp) (m_vel_timetable this) \<rparr>
       in
       bind_f
         (if m_vel_timetable this \<noteq> [] then
            (case fs (m_vel_timetable this) of
               None \<Rightarrow> Inl (Abort (''Cannot find input file: '' @ m_vel_timetable this))
             | Some toks \<Rightarrow>
                 (case stream_extract toks 0 of (m_vel_time, toks) \<Rightarrow>
                  case stream_extract toks (m_vel_speed this) of (speed, toks) \<Rightarrow>
                  case stream_extract toks (m_vel_dir this) of (dir, toks) \<Rightarrow>
                    Inr (this \<lparr> m_vel_speed := speed, m_vel_dir := dir,
                                m_vel_rad := radians dir \<rparr>)))
          else
            bind_f (getarr ''velocity'' (incflo_velocity pp)) (\<lambda>vel.
              Inr (this \<lparr> m_vel := vel \<rparr>)))
         (\<lambda>this.
            Inr (this
              \<lparr> m_thht_d := copy (m_theta_heights this) (resize num_theta_values (m_thht_d this)),
                m_thvv_d := copy (m_theta_values this) (resize num_theta_values (m_thvv_d this)) \<rparr>)))))"

subsection \<open>The mean-field pass: \<^verbatim>\<open>operator()\<close> (lines 65--134)\<close>

text \<open>The three views that \<^verbatim>\<open>operator()\<close> writes.\<close>

record Fields =
  velocity :: Array4
  density :: Array4
  temperature :: Array4

text \<open>Lines 80--91: the mean velocity, from the timetable record or from \<^verbatim>\<open>m_vel\<close>.\<close>

definition mean_velocity :: "ABLFieldInit \<Rightarrow> fault + (Real \<times> Real \<times> Real)" where
  "mean_velocity this =
     (if m_vel_timetable this \<noteq> [] then
        Inr (m_vel_speed this * cos (m_vel_rad this), m_vel_speed this * sin (m_vel_rad this), 0)
      else
        bind_f (read_at (m_vel this) 0) (\<lambda>umean.
        bind_f (read_at (m_vel this) 1) (\<lambda>vmean.
        bind_f (read_at (m_vel this) 2) (\<lambda>wmean.
          Inr (umean, vmean, wmean)))))"

text \<open>
  The kernel of the loop (lines 102--133) at one cell. \<open>aval\<close>, \<open>bval\<close>, \<open>ufac\<close> and
  \<open>vfac\<close> are the quotients of lines 92--95, which the kernel reads only when the
  velocity is perturbed.
\<close>

definition mean_kernel ::
  "ABLFieldInit \<Rightarrow> Geometry \<Rightarrow> Real \<times> Real \<times> Real \<Rightarrow>
   fault + Real \<Rightarrow> fault + Real \<Rightarrow> fault + Real \<Rightarrow> fault + Real \<Rightarrow>
   cell \<Rightarrow> Fields \<Rightarrow> fault + Fields" where
  "mean_kernel this geom mean aval bval ufac vfac c flds =
     (case (mean, c) of ((umean, vmean, wmean), (i, j, k)) \<Rightarrow>
      let dx = CellSizeArray geom;
          problo = ProbLoArray geom;
          ref_height = m_ref_height this;
          x = problo 0 + (real_of_int i + 0.5) * dx 0;
          y = problo 1 + (real_of_int j + 0.5) * dx 1;
          z = problo 2 + (real_of_int k + 0.5) * dx 2;
          flds = flds \<lparr> density := (density flds) ((c, 0) := m_rho this) \<rparr>;
          flds = flds \<lparr> velocity := (velocity flds) ((c, 0) := umean) \<rparr>;
          flds = flds \<lparr> velocity := (velocity flds) ((c, 1) := vmean) \<rparr>;
          flds = flds \<lparr> velocity := (velocity flds) ((c, 2) := wmean) \<rparr>
      in
      bind_f (profile_theta (m_thht_d this) (m_thvv_d this) (length (m_theta_heights this)) z)
        (\<lambda>theta.
      let flds = flds \<lparr> temperature :=
                   (temperature flds) ((c, 0) := temperature flds (c, 0) + theta) \<rparr>
      in
      if m_perturb_vel this then
        (let xl = x - problo 0;
             yl = y - problo 1
         in
         bind_f (rdiv z ref_height) (\<lambda>zl.
         let damp = exp (- 0.5 * zl * zl) in
         bind_f ufac (\<lambda>ufac.
         bind_f aval (\<lambda>aval.
         let flds = flds \<lparr> velocity := (velocity flds)
                      ((c, 0) := velocity flds (c, 0) + ufac * damp * z * cos (aval * yl)) \<rparr>
         in
         bind_f vfac (\<lambda>vfac.
         bind_f bval (\<lambda>bval.
           Inr (flds \<lparr> velocity := (velocity flds)
                  ((c, 1) := velocity flds (c, 1) + vfac * damp * z * cos (bval * xl)) \<rparr>)))))))
      else Inr flds))"

text \<open>
  \<^verbatim>\<open>amrex::ParallelFor\<close> over the cells of a box: the kernel is called once for every
  cell; a fault at a cell ends the pass.
\<close>

fun ParallelFor :: "cell list \<Rightarrow> (cell \<Rightarrow> 's \<Rightarrow> fault + 's) \<Rightarrow> 's \<Rightarrow> fault + 's" where
  "ParallelFor [] f s = Inr s"
| "ParallelFor (c # cs) f s = bind_f (f c s) (ParallelFor cs f)"

definition ABLFieldInit_call :: "ABLFieldInit \<Rightarrow> Box \<Rightarrow> Geometry \<Rightarrow> Fields \<Rightarrow> fault + Fields" where
  "ABLFieldInit_call this vbx geom flds =
     (let problo = ProbLoArray geom;
          probhi = ProbHiArray geom
      in
      bind_f (mean_velocity this) (\<lambda>mean.
      let aval = rdiv (m_Uperiods this * 2 * pi) (probhi 1 - problo 1);
          bval = rdiv (m_Vperiods this * 2 * pi) (probhi 0 - problo 0);
          ufac = rdiv (m_deltaU this * exp 0.5) (m_ref_height this);
          vfac = rdiv (m_deltaV this * exp 0.5) (m_ref_height this)
      in
      ParallelFor (box_cells vbx) (mean_kernel this geom mean aval bval ufac vfac) flds))"

subsection \<open>The stochastic pass: \<^verbatim>\<open>perturb_temperature\<close> (lines 136--180)\<close>

text \<open>
  \<^verbatim>\<open>amrex::RandomNormal\<close> and its engine belong to the AMReX library. Here the generator
  is a parameter \<open>RandomNormal\<close> of the pass: given the two numbers passed to it and the
  state of the engine, it returns the sample and the state the engine is left in.

  The kernel (lines 172--177) at one cell, on the view of the temperature and the
  engine.
\<close>

definition theta_kernel ::
  "(Real \<Rightarrow> Real \<Rightarrow> 'e \<Rightarrow> Real \<times> 'e) \<Rightarrow> ABLFieldInit \<Rightarrow> Geometry \<Rightarrow>
   cell \<Rightarrow> Array4 \<times> 'e \<Rightarrow> Array4 \<times> 'e" where
  "theta_kernel RandomNormal this geom c s =
     (case (c, s) of ((i, j, k), (theta, engine)) \<Rightarrow>
      let dx = CellSizeArray geom;
          problo = ProbLoArray geom;
          z = problo 2 + (real_of_int k + 0.5) * dx 2
      in
      if z < m_theta_cutoff_height this then
        (case RandomNormal (m_theta_gauss_mean this) (m_theta_gauss_var this) engine of
           (sample, engine) \<Rightarrow> (theta ((c, 0) := m_deltaT this * sample), engine))
      else (theta, engine))"

text \<open>
  \<^verbatim>\<open>amrex::ParallelForRNG\<close> over the cells of a tile, as it runs on the host: one call of
  the kernel after the other, each on the engine as the one before left it.
\<close>

fun ParallelForRNG :: "cell list \<Rightarrow> (cell \<Rightarrow> 's \<Rightarrow> 's) \<Rightarrow> 's \<Rightarrow> 's" where
  "ParallelForRNG [] f s = s"
| "ParallelForRNG (c # cs) f s = ParallelForRNG cs f (f c s)"

text \<open>
  The loop over the tiles of one array box (the body of the \<^verbatim>\<open>MFIter\<close> loop, for the
  iterations on this box).
\<close>

fun tile_loop ::
  "(Real \<Rightarrow> Real \<Rightarrow> 'e \<Rightarrow> Real \<times> 'e) \<Rightarrow> ABLFieldInit \<Rightarrow> Geometry \<Rightarrow>
   Box list \<Rightarrow> Array4 \<times> 'e \<Rightarrow> Array4 \<times> 'e" where
  "tile_loop RandomNormal this geom [] s = s"
| "tile_loop RandomNormal this geom (bx # bxs) s =
     tile_loop RandomNormal this geom bxs
       (ParallelForRNG (box_cells bx) (theta_kernel RandomNormal this geom) s)"

text \<open>
  The \<^verbatim>\<open>MFIter\<close> loop. \<open>theta_fab\<close> is \<^verbatim>\<open>temperature(lev)\<close>. \<open>tiling\<close> gives the tile
  boxes into which the iterator cuts the valid box of an array box, in the order in
  which it yields them: the choice is the library's. The loop is modelled as one thread
  runs it, on one engine; under OpenMP the tiles are shared among the threads, each
  with an engine of its own.
\<close>

fun mfiter_loop ::
  "(Real \<Rightarrow> Real \<Rightarrow> 'e \<Rightarrow> Real \<times> 'e) \<Rightarrow> ABLFieldInit \<Rightarrow> Geometry \<Rightarrow>
   (Box \<Rightarrow> Box list) \<Rightarrow> MultiFab \<Rightarrow> 'e \<Rightarrow> MultiFab \<times> 'e" where
  "mfiter_loop RandomNormal this geom tiling [] engine = ([], engine)"
| "mfiter_loop RandomNormal this geom tiling (fab # fabs) engine =
     (case tile_loop RandomNormal this geom (tiling (validbox fab)) (array fab, engine) of
        (theta, engine) \<Rightarrow>
          (case mfiter_loop RandomNormal this geom tiling fabs engine of
             (fabs, engine) \<Rightarrow> (fab \<lparr> array := theta \<rparr> # fabs, engine)))"

definition perturb_temperature ::
  "(Real \<Rightarrow> Real \<Rightarrow> 'e \<Rightarrow> Real \<times> 'e) \<Rightarrow> (Box \<Rightarrow> Box list) \<Rightarrow>
   ABLFieldInit \<Rightarrow> Geometry \<Rightarrow> MultiFab \<Rightarrow> 'e \<Rightarrow> MultiFab \<times> 'e" where
  "perturb_temperature RandomNormal tiling this geom theta_fab engine =
     mfiter_loop RandomNormal this geom tiling theta_fab engine"

subsection \<open>The turbulent kinetic energy: \<^verbatim>\<open>init_tke\<close> (lines 182--187)\<close>

text \<open>
  Modelled from the spec: \<^verbatim>\<open>amrex::MultiFab::setVal(val, nghost)\<close>, which belongs to the
  AMReX library and is not among the sources: it ``fills every cell of the field, across
  the full owned region, with one scalar constant'', in every component, and with it
  the \<open>nghost\<close> layers of ghost cells around each valid box.
\<close>

definition setVal :: "Real \<Rightarrow> int \<Rightarrow> MultiFab \<Rightarrow> MultiFab" where
  "setVal val nghost mf =
     map (\<lambda>fab. fab \<lparr> array :=
            (\<lambda>(c, n). if contains (grow (validbox fab) nghost) c then val else array fab (c, n)) \<rparr>)
       mf"

definition init_tke :: "ABLFieldInit \<Rightarrow> Geometry \<Rightarrow> MultiFab \<Rightarrow> MultiFab" where
  "init_tke this geom tke = setVal (m_tke_init this) 1 tke"

subsection \<open>Vocabulary for the stochastic pass\<close>

text \<open>The test of lines 172--173 at a cell: the height of its centre is below the cutoff.\<close>

definition below_cutoff :: "ABLFieldInit \<Rightarrow> Geometry \<Rightarrow> cell \<Rightarrow> bool" where
  "below_cutoff this geom c =
     (case c of (i, j, k) \<Rightarrow>
        ProbLoArray geom 2 + (real_of_int k + 0.5) * CellSizeArray geom 2
          < m_theta_cutoff_height this)"

text \<open>The cells of one array box in the order in which the pass visits them: tile by tile.\<close>

definition visited_cells :: "(Box \<Rightarrow> Box list) \<Rightarrow> FArrayBox \<Rightarrow> cell list" where
  "visited_cells tiling fab = concat (map box_cells (tiling (validbox fab)))"

text \<open>The sample that line 175 draws on an engine, and the engine after the draw.\<close>

definition sample_of :: "(Real \<Rightarrow> Real \<Rightarrow> 'e \<Rightarrow> Real \<times> 'e) \<Rightarrow> ABLFieldInit \<Rightarrow> 'e \<Rightarrow> Real" where
  "sample_of RandomNormal this engine =
     fst (RandomNormal (m_theta_gauss_mean this) (m_theta_gauss_var this) engine)"

definition advance :: "(Real \<Rightarrow> Real \<Rightarrow> 'e \<Rightarrow> Real \<times> 'e) \<Rightarrow> ABLFieldInit \<Rightarrow> 'e \<Rightarrow> 'e" where
  "advance RandomNormal this engine =
     snd (RandomNormal (m_theta_gauss_mean this) (m_theta_gauss_var this) engine)"

text \<open>The number of draws that the pass makes on a sequence of cells.\<close>

definition draws :: "ABLFieldInit \<Rightarrow> Geometry \<Rightarrow> cell list \<Rightarrow> nat" where
  "draws this geom cells = length (filter (below_cutoff this geom) cells)"

subsection \<open>Example inputs\<close>

text \<open>
  An object as default member initializers could leave it, an input in timetable mode
  with the table of the specification's example, the same input with one value missing
  from the table, and an input with a constant velocity.
\<close>

definition example_init :: ABLFieldInit where
  "example_init =
     \<lparr> m_theta_heights = [], m_theta_values = [], m_thht_d = [], m_thvv_d = [],
       m_perturb_vel = True, m_ref_height = 50, m_Uperiods = 4, m_Vperiods = 4,
       m_deltaU = 1, m_deltaV = 1, m_perturb_theta = False, m_theta_gauss_mean = 0,
       m_theta_gauss_var = 1, m_theta_cutoff_height = 1000, m_deltaT = 8 / 10,
       m_tke_init = 1 / 10, m_rho = 0, m_vel_timetable = [], m_vel_speed = 0,
       m_vel_dir = 0, m_vel_rad = 0, m_vel = [] \<rparr>"

definition example_pp :: ParmParse where
  "example_pp =
     \<lparr> ABL_temperature_heights = Some [0, 100, 500],
       ABL_temperature_values = Some [290, 300, 310],
       ABL_perturb_velocity = Some False,
       ABL_perturb_ref_height = None, ABL_Uperiods = None, ABL_Vperiods = None,
       ABL_deltaU = None, ABL_deltaV = None, ABL_perturb_temperature = None,
       ABL_random_gauss_mean = None, ABL_random_gauss_var = None,
       ABL_cutoff_height = None, ABL_theta_amplitude = None, ABL_init_tke = None,
       ABL_velocity_timetable = Some ''inflow.txt'',
       incflo_density = Some 1,
       incflo_velocity = None \<rparr>"

definition example_pp_mismatch :: ParmParse where
  "example_pp_mismatch = example_pp \<lparr> ABL_temperature_values := Some [290, 300] \<rparr>"

definition example_pp_perturbed :: ParmParse where
  "example_pp_perturbed =
     example_pp \<lparr> ABL_perturb_velocity := Some True, ABL_velocity_timetable := None,
                  incflo_velocity := Some [8, 0, 0] \<rparr>"

text \<open>A file system with the timetable of the specification's example, and one without it.\<close>

definition example_files :: files where
  "example_files path = (if path = ''inflow.txt'' then Some [241 / 2, 8, 270] else None)"

definition no_files :: files where
  "no_files path = None"

text \<open>
  A domain of 100 by 100 by 100 with cells of size 10, whose lowest layer of cells has its
  centres at height 0, a box of two by two by two cells, and fields that are zero.
\<close>

definition example_geom :: Geometry where
  "example_geom =
     \<lparr> CellSizeArray = (\<lambda>d. 10),
       ProbLoArray = (\<lambda>d. if d = 2 then - 5 else 0),
       ProbHiArray = (\<lambda>d. if d = 2 then 95 else 100) \<rparr>"

definition example_box :: Box where
  "example_box = \<lparr> smallEnd = (0, 0, 0), bigEnd = (1, 1, 1) \<rparr>"

definition example_fields :: Fields where
  "example_fields = \<lparr> velocity = (\<lambda>a. 0), density = (\<lambda>a. 0), temperature = (\<lambda>a. 0) \<rparr>"

text \<open>
  The object that the constructor returns on the example input in timetable mode, the
  same object with a cutoff height between the two layers of cells of the example box,
  and a field on one array box.
\<close>

definition example_this :: ABLFieldInit where
  "example_this =
     example_init
       \<lparr> m_theta_heights := [0, 100, 500], m_theta_values := [290, 300, 310],
         m_thht_d := [0, 100, 500], m_thvv_d := [290, 300, 310],
         m_perturb_vel := False, m_rho := 1, m_vel_timetable := ''inflow.txt'',
         m_vel_speed := 8, m_vel_dir := 270, m_vel_rad := radians 270 \<rparr>"

definition example_this_cutoff :: ABLFieldInit where
  "example_this_cutoff = example_this \<lparr> m_theta_cutoff_height := 5 \<rparr>"

definition example_multifab :: MultiFab where
  "example_multifab = [\<lparr> validbox = example_box, array = (\<lambda>a. 300) \<rparr>]"

text \<open>
  A generator whose engine counts its draws and whose sample is the mean plus the count
  times the second parameter; a tiling that yields the valid box as one tile, and one
  that cuts it into one tile for every index \<open>j\<close>.
\<close>

definition counting_normal :: "Real \<Rightarrow> Real \<Rightarrow> nat \<Rightarrow> Real \<times> nat" where
  "counting_normal mean sd engine = (mean + sd * real engine, Suc engine)"

definition one_tile :: "Box \<Rightarrow> Box list" where
  "one_tile bx = [bx]"

definition tiles_along_j :: "Box \<Rightarrow> Box list" where
  "tiles_along_j bx =
     (case (smallEnd bx, bigEnd bx) of ((ilo, jlo, klo), (ihi, jhi, khi)) \<Rightarrow>
        map (\<lambda>j. \<lparr> smallEnd = (ilo, j, klo), bigEnd = (ihi, j, khi) \<rparr>) [jlo..jhi])"

text \<open>
  The example input with a table that has no entry: both sequences are there and empty.
  The object that the constructor returns on it.
\<close>

definition example_pp_empty :: ParmParse where
  "example_pp_empty =
     example_pp \<lparr> ABL_temperature_heights := Some [], ABL_temperature_values := Some [] \<rparr>"

definition example_this_empty :: ABLFieldInit where
  "example_this_empty =
     example_this \<lparr> m_theta_heights := [], m_theta_values := [], m_thht_d := [], m_thvv_d := [] \<rparr>"

section \<open>Properties\<close>

subsection \<open>Sequencing and reads\<close>

lemma bind_f_Inr [simp]: "bind_f (Inr v) k = k v"
  by (simp add: bind_f_def)

lemma bind_f_Inl [simp]: "bind_f (Inl e) k = Inl e"
  by (simp add: bind_f_def)

lemma read_at_in_range [simp]: "i < length xs \<Longrightarrow> read_at xs i = Inr (xs ! i)"
  by (simp add: read_at_def)

lemma theta_step_no_match:
  assumes "iz + 1 < length th" and "\<not> (th ! iz < z \<and> z \<le> th ! (iz + 1))"
  shows "theta_step th tv z iz theta = Inr theta"
  using assms by (auto simp: theta_step_def)

lemma theta_step_match:
  assumes "iz + 1 < length th" and "iz + 1 < length tv"
    and "th ! iz < z" and "z \<le> th ! (iz + 1)"
  shows "theta_step th tv z iz theta =
           Inr (tv ! iz + (z - th ! iz) * ((tv ! (iz + 1) - tv ! iz) / (th ! (iz + 1) - th ! iz)))"
  using assms by (simp add: theta_step_def rdiv_def)

lemma theta_step_not_division_by_zero:
  "theta_step th tv z iz theta \<noteq> Inl DivisionByZero"
  by (auto simp: theta_step_def bind_f_def read_at_def rdiv_def split: sum.splits)

lemma theta_loop_not_division_by_zero:
  "theta_loop th tv z izs theta \<noteq> Inl DivisionByZero"
proof (induction izs arbitrary: theta)
  case Nil
  show ?case by simp
next
  case (Cons iz izs)
  show ?case
  proof (cases "theta_step th tv z iz theta")
    case (Inl e)
    then show ?thesis using theta_step_not_division_by_zero [of th tv z iz theta] by simp
  next
    case (Inr v)
    then show ?thesis using Cons.IH [of v] by simp
  qed
qed

lemma theta_step_returns:
  assumes "iz + 1 < length th" and "iz + 1 < length tv"
  shows "\<exists>v. theta_step th tv z iz theta = Inr v"
proof (cases "th ! iz < z \<and> z \<le> th ! (iz + 1)")
  case True
  then show ?thesis using theta_step_match [OF assms] by blast
next
  case False
  then show ?thesis using theta_step_no_match [OF assms(1)] by blast
qed

lemma theta_loop_returns:
  assumes "\<forall>iz \<in> set izs. iz + 1 < length th \<and> iz + 1 < length tv"
  shows "\<exists>v. theta_loop th tv z izs theta = Inr v"
  using assms
proof (induction izs arbitrary: theta)
  case Nil
  show ?case by simp
next
  case (Cons iz izs)
  then obtain v where "theta_step th tv z iz theta = Inr v"
    using theta_step_returns [of iz th tv z theta] by auto
  then show ?case using Cons by simp
qed

lemma theta_loop_no_match:
  assumes "\<forall>iz \<in> set izs. iz + 1 < length th \<and> \<not> (th ! iz < z \<and> z \<le> th ! (iz + 1))"
  shows "theta_loop th tv z izs theta = Inr theta"
  using assms by (induction izs) (simp_all add: theta_step_no_match)

lemma theta_loop_append:
  "theta_loop th tv z (xs @ ys) theta = bind_f (theta_loop th tv z xs theta) (theta_loop th tv z ys)"
proof (induction xs arbitrary: theta)
  case Nil
  show ?case by simp
next
  case (Cons x xs)
  show ?case by (cases "theta_step th tv z x theta") (simp_all add: Cons.IH)
qed

lemma theta_loop_last_match:
  assumes pre: "\<forall>iz \<in> set pre. iz + 1 < length th \<and> iz + 1 < length tv"
    and i: "i + 1 < length th" "i + 1 < length tv" "th ! i < z" "z \<le> th ! (i + 1)"
    and post: "\<forall>iz \<in> set post. iz + 1 < length th \<and> \<not> (th ! iz < z \<and> z \<le> th ! (iz + 1))"
  shows "theta_loop th tv z (pre @ i # post) theta =
           Inr (tv ! i + (z - th ! i) * ((tv ! (i + 1) - tv ! i) / (th ! (i + 1) - th ! i)))"
proof -
  obtain v where "theta_loop th tv z pre theta = Inr v"
    using theta_loop_returns [OF pre] by blast
  then show ?thesis
    by (simp add: theta_loop_append theta_step_match [OF i] theta_loop_no_match [OF post])
qed


lemma upt_split_at:
  assumes "i < n"
  shows "[0..<n] = [0..<i] @ i # [Suc i..<n]"
proof -
  have "[0..<i + (n - i)] = [0..<i] @ [i..<i + (n - i)]"
    by (rule upt_add_eq_append) simp
  then show ?thesis
    using assms by (simp add: upt_conv_Cons)
qed

text \<open>
  C1. On a table whose heights and values have the same length and are not empty, the
  profile is the piecewise function of the specification. For ascending heights: a
  height \<open>z\<close> at or below the first breakpoint gets the first value, and a height in
  \<open>(th ! i, th ! (i + 1)]\<close> gets the linear interpolation between the breakpoints \<open>i\<close>
  and \<open>i + 1\<close>, computed as the code computes it. A height above every breakpoint gets
  the first value of the table, not an extrapolation (for this part the heights need
  not be ascending).
\<close>

theorem profile_theta_piecewise:
  assumes "length th = length tv" and "tv \<noteq> []"
  shows "(sorted th \<and> z \<le> th ! 0 \<longrightarrow> profile_theta th tv (length th) z = Inr (tv ! 0))
       \<and> (sorted th \<and> i + 1 < length th \<and> th ! i < z \<and> z \<le> th ! (i + 1) \<longrightarrow>
            profile_theta th tv (length th) z =
              Inr (tv ! i + (z - th ! i) * ((tv ! (i + 1) - tv ! i) / (th ! (i + 1) - th ! i))))
       \<and> ((\<forall>h \<in> set th. h < z) \<longrightarrow> profile_theta th tv (length th) z = Inr (tv ! 0))"
proof (intro conjI impI)
  have first: "read_at tv 0 = Inr (tv ! 0)"
    using assms(2) by simp
  {
    assume s: "sorted th \<and> z \<le> th ! 0"
    then have "\<forall>iz \<in> set [0..<length th - 1]. iz + 1 < length th \<and> \<not> (th ! iz < z \<and> z \<le> th ! (iz + 1))"
    proof (intro ballI)
      fix iz assume "iz \<in> set [0..<length th - 1]"
      then have iz: "iz + 1 < length th" by simp
      then have "th ! 0 \<le> th ! iz"
        using s sorted_nth_mono [of th 0 iz] by simp
      then show "iz + 1 < length th \<and> \<not> (th ! iz < z \<and> z \<le> th ! (iz + 1))"
        using s iz by simp
    qed
    then show "profile_theta th tv (length th) z = Inr (tv ! 0)"
      by (simp add: profile_theta_def first theta_loop_no_match)
  }
  {
    assume a: "sorted th \<and> i + 1 < length th \<and> th ! i < z \<and> z \<le> th ! (i + 1)"
    then have split: "[0..<length th - 1] = [0..<i] @ i # [Suc i..<length th - 1]"
      by (intro upt_split_at) linarith
    have pre: "\<forall>iz \<in> set [0..<i]. iz + 1 < length th \<and> iz + 1 < length tv"
      using a assms(1) by simp
    have post: "\<forall>iz \<in> set [Suc i..<length th - 1].
                  iz + 1 < length th \<and> \<not> (th ! iz < z \<and> z \<le> th ! (iz + 1))"
    proof
      fix iz assume "iz \<in> set [Suc i..<length th - 1]"
      then have iz: "i + 1 \<le> iz" "iz + 1 < length th" by auto
      then have "th ! (i + 1) \<le> th ! iz"
        using a sorted_nth_mono [of th "i + 1" iz] by simp
      then show "iz + 1 < length th \<and> \<not> (th ! iz < z \<and> z \<le> th ! (iz + 1))"
        using a iz by simp
    qed
    have "theta_loop th tv z ([0..<i] @ i # [Suc i..<length th - 1]) (tv ! 0) =
            Inr (tv ! i + (z - th ! i) * ((tv ! (i + 1) - tv ! i) / (th ! (i + 1) - th ! i)))"
      by (rule theta_loop_last_match [OF pre _ _ _ _ post]) (use a assms(1) in simp_all)
    then show "profile_theta th tv (length th) z =
              Inr (tv ! i + (z - th ! i) * ((tv ! (i + 1) - tv ! i) / (th ! (i + 1) - th ! i)))"
      unfolding profile_theta_def first bind_f_Inr split .
  }
  {
    assume "\<forall>h \<in> set th. h < z"
    then have "\<forall>iz \<in> set [0..<length th - 1]. iz + 1 < length th \<and> \<not> (th ! iz < z \<and> z \<le> th ! (iz + 1))"
      by (auto simp: not_le)
    then show "profile_theta th tv (length th) z = Inr (tv ! 0)"
      by (simp add: profile_theta_def first theta_loop_no_match)
  }
qed

theorem profile_theta_piecewise_witness:
  "sorted [0, 100, 500 :: Real]
   \<and> profile_theta [0, 100, 500] [290, 300, 310] 3 0 = Inr 290
   \<and> profile_theta [0, 100, 500] [290, 300, 310] 3 50 = Inr 295
   \<and> profile_theta [0, 100, 500] [290, 300, 310] 3 100 = Inr 300
   \<and> profile_theta [0, 100, 500] [290, 300, 310] 3 700 = Inr 290"
  using profile_theta_piecewise [of "[0, 100, 500]" "[290, 300, 310]" 0 0]
    profile_theta_piecewise [of "[0, 100, 500]" "[290, 300, 310]" 50 0]
    profile_theta_piecewise [of "[0, 100, 500]" "[290, 300, 310]" 100 0]
    profile_theta_piecewise [of "[0, 100, 500]" "[290, 300, 310]" 700 0]
  by (simp add: numeral_3_eq_3)

text \<open>
  C10. The evaluation is not total on every pair of arrays: the constructor accepts two
  empty sequences (their lengths are equal), and on the object it returns the evaluation
  reads \<^verbatim>\<open>tv[0]\<close> outside the array, at any height, so that the pass over a box that is
  not empty faults at its first cell.
\<close>

theorem profile_theta_empty_table:
  "ABLFieldInit_ctor example_init example_pp_empty example_files = Inr example_this_empty
   \<and> profile_theta [] [] 0 0 = Inl OutOfBounds
   \<and> profile_theta (m_thht_d example_this_empty) (m_thvv_d example_this_empty)
         (length (m_theta_heights example_this_empty)) 0 = Inl OutOfBounds
   \<and> ABLFieldInit_call example_this_empty example_box example_geom example_fields
       = Inl OutOfBounds"
proof -
  have "ABLFieldInit_ctor example_init example_pp_empty example_files = Inr example_this_empty"
    by (simp add: ABLFieldInit_ctor_def example_this_empty_def example_this_def example_init_def
        example_pp_empty_def example_pp_def example_files_def getarr_def get_def query_def
        stream_extract_def copy_def resize_def Let_def)
  moreover have p: "profile_theta [] [] 0 z = Inl OutOfBounds" for z
    by (simp add: profile_theta_def read_at_def)
  moreover have "profile_theta (m_thht_d example_this_empty) (m_thvv_d example_this_empty)
         (length (m_theta_heights example_this_empty)) 0 = Inl OutOfBounds"
    by (simp add: example_this_empty_def p)
  moreover have "ABLFieldInit_call example_this_empty example_box example_geom example_fields
       = Inl OutOfBounds"
    by (simp add: ABLFieldInit_call_def mean_velocity_def mean_kernel_def box_cells_def
        example_box_def upto.simps example_this_empty_def example_this_def example_init_def
        p Let_def)
  ultimately show ?thesis
    by simp
qed

text \<open>
  C10, as the code has it. For every height and every pair of arrays, ascending or not,
  with or without repeated heights, of any lengths and also empty, the evaluation of the
  profile never divides by zero: the slope is computed only under
  \<open>th ! iz < z \<and> z \<le> th ! (iz + 1)\<close>, where the divisor is positive. The loop always
  ends, and on a table that is not empty, with \<open>ntvals\<close> within the two arrays, the
  evaluation returns a value.
\<close>

theorem profile_theta_never_divides_by_zero:
  "profile_theta th tv ntvals z \<noteq> Inl DivisionByZero
   \<and> (tv \<noteq> [] \<and> ntvals \<le> length th \<and> ntvals \<le> length tv \<longrightarrow>
        (\<exists>theta. profile_theta th tv ntvals z = Inr theta))"
proof (intro conjI impI)
  show "profile_theta th tv ntvals z \<noteq> Inl DivisionByZero"
    using theta_loop_not_division_by_zero
    by (auto simp: profile_theta_def bind_f_def read_at_def split: sum.splits)
next
  assume a: "tv \<noteq> [] \<and> ntvals \<le> length th \<and> ntvals \<le> length tv"
  then have "\<forall>iz \<in> set [0..<ntvals - 1]. iz + 1 < length th \<and> iz + 1 < length tv"
    by auto
  from theta_loop_returns [OF this] a
  show "\<exists>theta. profile_theta th tv ntvals z = Inr theta"
    by (simp add: profile_theta_def)
qed

theorem profile_theta_never_divides_by_zero_witness:
  "profile_theta [0, 5, 5, 3] [1, 2, 3, 4] 4 4 \<noteq> Inl DivisionByZero
   \<and> profile_theta [0, 5, 5, 3] [1, 2, 3, 4] 4 4 = Inr (9 / 5)
   \<and> profile_theta [0, 5, 5, 3] [1, 2, 3, 4] 4 5 = Inr 2"
  using profile_theta_never_divides_by_zero [of "[0, 5, 5, 3]" "[1, 2, 3, 4]" 4 4]
  by (simp add: profile_theta_def theta_step_def rdiv_def upt_rec)

subsection \<open>The constructor\<close>

lemma copy_resize [simp]: "length v = n \<Longrightarrow> copy v (resize n w) = v"
  by (auto simp: copy_def resize_def)

lemma ctor_timetable_missing:
  assumes "ABL_temperature_heights pp = Some hs" and "ABL_temperature_values pp = Some vs"
    and "length hs = length vs" and "incflo_density pp = Some rho"
    and "query (ABL_velocity_timetable pp) (m_vel_timetable init) = path"
    and "path \<noteq> []" and "fs path = None"
  shows "ABLFieldInit_ctor init pp fs = Inl (Abort (''Cannot find input file: '' @ path))"
  using assms by (simp add: ABLFieldInit_ctor_def getarr_def get_def Let_def)

lemma ctor_timetable_fails:
  assumes "query (ABL_velocity_timetable pp) (m_vel_timetable init) = path"
    and "path \<noteq> []" and "fs path = None"
  shows "\<exists>e. ABLFieldInit_ctor init pp fs = Inl e"
  using assms
  by (auto simp: ABLFieldInit_ctor_def getarr_def get_def Let_def bind_f_def split: option.splits)

lemma ctor_assertion:
  assumes "ABL_temperature_heights pp = Some hs" and "ABL_temperature_values pp = Some vs"
    and "length hs \<noteq> length vs"
  shows "ABLFieldInit_ctor init pp fs =
           Inl (AssertionFailed ''m_theta_heights.size() == m_theta_values.size()'')"
  using assms by (simp add: ABLFieldInit_ctor_def getarr_def)

lemma ctor_Inr_table:
  assumes "ABLFieldInit_ctor init pp fs = Inr this"
  shows "ABL_temperature_heights pp = Some (m_theta_heights this)
       \<and> ABL_temperature_values pp = Some (m_theta_values this)
       \<and> length (m_theta_heights this) = length (m_theta_values this)
       \<and> m_thht_d this = m_theta_heights this \<and> m_thvv_d this = m_theta_values this"
  using assms
  by (auto simp: ABLFieldInit_ctor_def getarr_def get_def Let_def bind_f_def stream_extract_def
      split: option.splits if_splits list.splits)

lemma ctor_succeeds:
  assumes "ABL_temperature_heights pp = Some hs" and "ABL_temperature_values pp = Some vs"
    and "length hs = length vs" and "incflo_density pp = Some rho"
    and "query (ABL_velocity_timetable pp) (m_vel_timetable init) = path"
    and "if path \<noteq> [] then fs path \<noteq> None else incflo_velocity pp \<noteq> None"
  shows "\<exists>this. ABLFieldInit_ctor init pp fs = Inr this"
  using assms
  by (auto simp: ABLFieldInit_ctor_def getarr_def get_def Let_def bind_f_def
      split: option.splits if_splits prod.splits)

lemma ctor_Inr_timetable:
  assumes "ABLFieldInit_ctor init pp fs = Inr this"
  shows "m_vel_timetable this = query (ABL_velocity_timetable pp) (m_vel_timetable init)"
  using assms
  by (auto simp: ABLFieldInit_ctor_def getarr_def get_def Let_def bind_f_def stream_extract_def
      split: option.splits if_splits list.splits)

lemma ctor_timetable_record:
  assumes "ABLFieldInit_ctor init pp fs = Inr this" and "m_vel_timetable this \<noteq> []"
    and "fs (m_vel_timetable this) = Some (time # speed # direction_degrees # rest)"
  shows "m_vel_speed this = speed \<and> m_vel_dir this = direction_degrees
       \<and> m_vel_rad this = radians direction_degrees"
proof -
  let ?path = "query (ABL_velocity_timetable pp) (m_vel_timetable init)"
  have "?path \<noteq> []" and "fs ?path = Some (time # speed # direction_degrees # rest)"
    using assms ctor_Inr_timetable [OF assms(1)] by simp_all
  then show ?thesis
    using assms(1)
    by (auto simp: ABLFieldInit_ctor_def getarr_def get_def Let_def bind_f_def stream_extract_def
        split: option.splits if_splits)
qed

lemma ctor_constant_velocity:
  assumes "ABLFieldInit_ctor init pp fs = Inr this" and "m_vel_timetable this = []"
  shows "incflo_velocity pp = Some (m_vel this)"
proof -
  have "query (ABL_velocity_timetable pp) (m_vel_timetable init) = []"
    using assms ctor_Inr_timetable [OF assms(1)] by simp
  then show ?thesis
    using assms(1)
    by (auto simp: ABLFieldInit_ctor_def getarr_def get_def Let_def bind_f_def
        split: option.splits if_splits)
qed


text \<open>
  C7. In timetable mode (the path of the timetable is not empty), when the file cannot be
  opened the constructor fails: it returns no object, so no pass can run and no field
  is initialized. When the configuration read before the file is in order (the table
  with equal lengths, the density), the failure is \<^verbatim>\<open>amrex::Abort\<close> with the message
  \<^verbatim>\<open>Cannot find input file: \<close> followed by the path, which the message so contains.
\<close>

theorem ctor_timetable_unavailable:
  assumes "query (ABL_velocity_timetable pp) (m_vel_timetable init) = path"
    and "path \<noteq> []" and "fs path = None"
  shows "(\<exists>e. ABLFieldInit_ctor init pp fs = Inl e)
       \<and> (ABL_temperature_heights pp = Some hs \<and> ABL_temperature_values pp = Some vs
            \<and> length hs = length vs \<and> incflo_density pp = Some rho \<longrightarrow>
          ABLFieldInit_ctor init pp fs = Inl (Abort (''Cannot find input file: '' @ path))
          \<and> sublist path (''Cannot find input file: '' @ path))"
proof -
  have "\<exists>e. ABLFieldInit_ctor init pp fs = Inl e"
    using assms by (rule ctor_timetable_fails)
  moreover have "ABLFieldInit_ctor init pp fs = Inl (Abort (''Cannot find input file: '' @ path))"
    if "ABL_temperature_heights pp = Some hs \<and> ABL_temperature_values pp = Some vs
            \<and> length hs = length vs \<and> incflo_density pp = Some rho"
    using that assms ctor_timetable_missing [of pp hs vs rho init path fs] by blast
  moreover have "sublist path (''Cannot find input file: '' @ path)"
    by (rule sublist_append_leftI)
  ultimately show ?thesis by blast
qed

theorem ctor_timetable_unavailable_witness:
  "(\<exists>e. ABLFieldInit_ctor example_init example_pp no_files = Inl e)
   \<and> ABLFieldInit_ctor example_init example_pp no_files
       = Inl (Abort ''Cannot find input file: inflow.txt'')
   \<and> sublist ''inflow.txt'' ''Cannot find input file: inflow.txt''"
  using ctor_timetable_unavailable [of example_pp example_init "''inflow.txt''" no_files
      "[0, 100, 500]" "[290, 300, 310]" 1]
  by (simp add: example_pp_def example_init_def no_files_def query_def)

text \<open>
  C8. Construction does not fail only when the lengths differ: with a table of equal
  lengths the constructor aborts when the timetable file is missing.
\<close>

theorem ctor_fails_with_equal_lengths:
  "ABL_temperature_heights example_pp = Some [0, 100, 500]
   \<and> ABL_temperature_values example_pp = Some [290, 300, 310]
   \<and> length [0, 100, 500 :: Real] = length [290, 300, 310 :: Real]
   \<and> ABLFieldInit_ctor example_init example_pp no_files
       = Inl (Abort ''Cannot find input file: inflow.txt'')"
  by (simp add: ABLFieldInit_ctor_def example_pp_def example_init_def no_files_def
      getarr_def get_def query_def Let_def)

text \<open>
  C8, as the code has it. With both sequences given: if their lengths differ, the
  constructor fails at the assertion on the two sizes, whose diagnostic is the condition
  on the members; it returns an object exactly when the lengths are equal and the rest of
  the configuration is there (the density, and the timetable file in timetable mode or
  the velocity otherwise); and every object it returns holds the table unchanged, in the
  host vectors and in the device vectors.
\<close>

theorem ctor_table_lengths:
  assumes "ABL_temperature_heights pp = Some hs" and "ABL_temperature_values pp = Some vs"
  shows "(length hs \<noteq> length vs \<longrightarrow>
            ABLFieldInit_ctor init pp fs =
              Inl (AssertionFailed ''m_theta_heights.size() == m_theta_values.size()''))
       \<and> ((\<exists>this. ABLFieldInit_ctor init pp fs = Inr this) \<longleftrightarrow>
            length hs = length vs \<and> incflo_density pp \<noteq> None
            \<and> (if query (ABL_velocity_timetable pp) (m_vel_timetable init) \<noteq> []
               then fs (query (ABL_velocity_timetable pp) (m_vel_timetable init)) \<noteq> None
               else incflo_velocity pp \<noteq> None))
       \<and> (\<forall>this. ABLFieldInit_ctor init pp fs = Inr this \<longrightarrow>
            m_theta_heights this = hs \<and> m_theta_values this = vs
            \<and> m_thht_d this = hs \<and> m_thvv_d this = vs)"
proof -
  have a: "length hs \<noteq> length vs \<longrightarrow>
            ABLFieldInit_ctor init pp fs =
              Inl (AssertionFailed ''m_theta_heights.size() == m_theta_values.size()'')"
    using ctor_assertion [OF assms] by blast
  have b: "(\<exists>this. ABLFieldInit_ctor init pp fs = Inr this) \<longleftrightarrow>
            length hs = length vs \<and> incflo_density pp \<noteq> None
            \<and> (if query (ABL_velocity_timetable pp) (m_vel_timetable init) \<noteq> []
               then fs (query (ABL_velocity_timetable pp) (m_vel_timetable init)) \<noteq> None
               else incflo_velocity pp \<noteq> None)"
    using assms
    by (auto simp: ABLFieldInit_ctor_def getarr_def get_def Let_def bind_f_def
        split: option.splits if_splits prod.splits)
  have c: "\<forall>this. ABLFieldInit_ctor init pp fs = Inr this \<longrightarrow>
            m_theta_heights this = hs \<and> m_theta_values this = vs
            \<and> m_thht_d this = hs \<and> m_thvv_d this = vs"
    using ctor_Inr_table assms by fastforce
  from a b c show ?thesis by blast
qed

theorem ctor_table_lengths_witness:
  "ABLFieldInit_ctor example_init example_pp_mismatch example_files
     = Inl (AssertionFailed ''m_theta_heights.size() == m_theta_values.size()'')
   \<and> (\<exists>this. ABLFieldInit_ctor example_init example_pp example_files = Inr this
         \<and> m_theta_heights this = [0, 100, 500] \<and> m_theta_values this = [290, 300, 310]
         \<and> m_thht_d this = [0, 100, 500] \<and> m_thvv_d this = [290, 300, 310])"
  using ctor_table_lengths [of example_pp_mismatch "[0, 100, 500]" "[290, 300]"
      example_init example_files]
    ctor_table_lengths [of example_pp "[0, 100, 500]" "[290, 300, 310]"
      example_init example_files]
  by (simp add: example_pp_mismatch_def example_pp_def example_init_def example_files_def
      query_def) blast

subsection \<open>The mean-field pass\<close>

lemma box_cells_product:
  "box_cells bx =
     (case (smallEnd bx, bigEnd bx) of ((ilo, jlo, klo), (ihi, jhi, khi)) \<Rightarrow>
        map (\<lambda>(k, j, i). (i, j, k)) (List.product [klo..khi] (List.product [jlo..jhi] [ilo..ihi])))"
  by (simp add: box_cells_def product_concat_map map_concat comp_def split: prod.splits)

lemma distinct_box_cells: "distinct (box_cells bx)"
  by (auto simp: box_cells_product distinct_map distinct_product inj_on_def split: prod.splits)

lemma set_box_cells: "c \<in> set (box_cells bx) \<longleftrightarrow> contains bx c"
  by (cases c) (auto simp: box_cells_product contains_def image_iff split: prod.splits)

lemma ParallelFor_closed_form:
  assumes "distinct cells"
    and "\<And>c flds. c \<in> set cells \<Longrightarrow>
           kern c flds = Inr (flds
             \<lparr> velocity := (velocity flds) ((c, 0) := u c, (c, 1) := v c, (c, 2) := w c),
               density := (density flds) ((c, 0) := r),
               temperature := (temperature flds) ((c, 0) := temperature flds (c, 0) + t c) \<rparr>)"
  shows "ParallelFor cells kern flds = Inr
           \<lparr> velocity = (\<lambda>(c, n). if c \<in> set cells \<and> n < 3
                              then (if n = 0 then u c else if n = 1 then v c else w c)
                              else velocity flds (c, n)),
             density = (\<lambda>(c, n). if c \<in> set cells \<and> n = 0 then r else density flds (c, n)),
             temperature = (\<lambda>(c, n). if c \<in> set cells \<and> n = 0
                              then temperature flds (c, 0) + t c
                              else temperature flds (c, n)) \<rparr>"
  using assms
proof (induction cells arbitrary: flds)
  case Nil
  show ?case by (cases flds) simp
next
  case (Cons c cs)
  have step: "kern c flds = Inr (flds
             \<lparr> velocity := (velocity flds) ((c, 0) := u c, (c, 1) := v c, (c, 2) := w c),
               density := (density flds) ((c, 0) := r),
               temperature := (temperature flds) ((c, 0) := temperature flds (c, 0) + t c) \<rparr>)"
    by (rule Cons.prems(2)) simp
  have rest: "\<And>c' flds'. c' \<in> set cs \<Longrightarrow>
           kern c' flds' = Inr (flds'
             \<lparr> velocity := (velocity flds') ((c', 0) := u c', (c', 1) := v c', (c', 2) := w c'),
               density := (density flds') ((c', 0) := r),
               temperature := (temperature flds') ((c', 0) := temperature flds' (c', 0) + t c') \<rparr>)"
    by (rule Cons.prems(2)) simp
  have d: "distinct cs" "c \<notin> set cs" using Cons.prems(1) by simp_all
  let ?flds1 = "flds
             \<lparr> velocity := (velocity flds) ((c, 0) := u c, (c, 1) := v c, (c, 2) := w c),
               density := (density flds) ((c, 0) := r),
               temperature := (temperature flds) ((c, 0) := temperature flds (c, 0) + t c) \<rparr>"
  have "ParallelFor (c # cs) kern flds = ParallelFor cs kern ?flds1"
    by (simp only: ParallelFor.simps step bind_f_Inr)
  also note Cons.IH [OF d(1) rest, of ?flds1]
  finally show ?case
    using d(2) by (auto simp: fun_eq_iff)
qed


lemma profile_theta_returns:
  assumes "tv \<noteq> []" and "ntvals \<le> length th" and "ntvals \<le> length tv"
  shows "profile_theta th tv ntvals z = Inr (projr (profile_theta th tv ntvals z))"
proof -
  have "\<forall>iz \<in> set [0..<ntvals - 1]. iz + 1 < length th \<and> iz + 1 < length tv"
    using assms by auto
  from theta_loop_returns [OF this] assms(1)
  have "\<exists>theta. profile_theta th tv ntvals z = Inr theta"
    by (simp add: profile_theta_def)
  then show ?thesis by auto
qed

lemma mean_kernel_cell:
  fixes this :: ABLFieldInit and geom :: Geometry and i j k :: int
  defines "x \<equiv> ProbLoArray geom 0 + (real_of_int i + 0.5) * CellSizeArray geom 0"
    and "y \<equiv> ProbLoArray geom 1 + (real_of_int j + 0.5) * CellSizeArray geom 1"
    and "z \<equiv> ProbLoArray geom 2 + (real_of_int k + 0.5) * CellSizeArray geom 2"
  assumes theta: "profile_theta (m_thht_d this) (m_thvv_d this) (length (m_theta_heights this)) z
                    = Inr theta"
    and div: "m_perturb_vel this \<longrightarrow> m_ref_height this \<noteq> 0 \<and> d1 \<noteq> 0 \<and> d0 \<noteq> 0"
  shows "mean_kernel this geom (umean, vmean, wmean)
           (rdiv a d1) (rdiv b d0) (rdiv u (m_ref_height this)) (rdiv v (m_ref_height this))
           (i, j, k) flds =
         Inr (flds
           \<lparr> velocity := (velocity flds)
               (((i, j, k), 0) := umean + (if m_perturb_vel this
                    then u / m_ref_height this
                         * exp (- 0.5 * (z / m_ref_height this) * (z / m_ref_height this))
                         * z * cos (a / d1 * (y - ProbLoArray geom 1))
                    else 0),
                ((i, j, k), 1) := vmean + (if m_perturb_vel this
                    then v / m_ref_height this
                         * exp (- 0.5 * (z / m_ref_height this) * (z / m_ref_height this))
                         * z * cos (b / d0 * (x - ProbLoArray geom 0))
                    else 0),
                ((i, j, k), 2) := wmean),
             density := (density flds) (((i, j, k), 0) := m_rho this),
             temperature := (temperature flds)
               (((i, j, k), 0) := temperature flds ((i, j, k), 0) + theta) \<rparr>)"
proof (cases "m_perturb_vel this")
  case False
  then show ?thesis
    using theta unfolding x_def y_def z_def
    by (cases flds) (simp add: mean_kernel_def Let_def fun_eq_iff)
next
  case True
  with div have nz: "m_ref_height this \<noteq> 0" "d1 \<noteq> 0" "d0 \<noteq> 0" by simp_all
  show ?thesis
    using theta True nz unfolding x_def y_def z_def
    by (cases flds) (simp add: mean_kernel_def Let_def rdiv_def fun_eq_iff)
qed


lemma call_closed_form:
  fixes this :: ABLFieldInit and geom :: Geometry
  defines "X \<equiv> \<lambda>c. case c of (i, j, k) \<Rightarrow>
                  ProbLoArray geom 0 + (real_of_int i + 0.5) * CellSizeArray geom 0"
    and "Y \<equiv> \<lambda>c. case c of (i, j, k) \<Rightarrow>
                  ProbLoArray geom 1 + (real_of_int j + 0.5) * CellSizeArray geom 1"
    and "Z \<equiv> \<lambda>c. case c of (i, j, k) \<Rightarrow>
                  ProbLoArray geom 2 + (real_of_int k + 0.5) * CellSizeArray geom 2"
  assumes table: "m_thvv_d this \<noteq> []" "length (m_theta_heights this) \<le> length (m_thht_d this)"
      "length (m_theta_heights this) \<le> length (m_thvv_d this)"
    and mean: "mean_velocity this = Inr (umean, vmean, wmean)"
    and div: "m_perturb_vel this \<longrightarrow> m_ref_height this \<noteq> 0
                \<and> ProbHiArray geom 1 - ProbLoArray geom 1 \<noteq> 0
                \<and> ProbHiArray geom 0 - ProbLoArray geom 0 \<noteq> 0"
  shows "ABLFieldInit_call this vbx geom flds = Inr
           \<lparr> velocity = (\<lambda>(c, n). if contains vbx c \<and> n < 3
                then (if n = 0 then umean + (if m_perturb_vel this
                        then m_deltaU this * exp 0.5 / m_ref_height this
                             * exp (- 0.5 * (Z c / m_ref_height this) * (Z c / m_ref_height this))
                             * Z c
                             * cos (m_Uperiods this * 2 * pi
                                      / (ProbHiArray geom 1 - ProbLoArray geom 1)
                                    * (Y c - ProbLoArray geom 1))
                        else 0)
                      else if n = 1 then vmean + (if m_perturb_vel this
                        then m_deltaV this * exp 0.5 / m_ref_height this
                             * exp (- 0.5 * (Z c / m_ref_height this) * (Z c / m_ref_height this))
                             * Z c
                             * cos (m_Vperiods this * 2 * pi
                                      / (ProbHiArray geom 0 - ProbLoArray geom 0)
                                    * (X c - ProbLoArray geom 0))
                        else 0)
                      else wmean)
                else velocity flds (c, n)),
             density = (\<lambda>(c, n). if contains vbx c \<and> n = 0 then m_rho this
                else density flds (c, n)),
             temperature = (\<lambda>(c, n). if contains vbx c \<and> n = 0
                then temperature flds (c, 0)
                     + projr (profile_theta (m_thht_d this) (m_thvv_d this)
                                (length (m_theta_heights this)) (Z c))
                else temperature flds (c, n)) \<rparr>"
proof -
  define u where "u = (\<lambda>c. umean + (if m_perturb_vel this
                        then m_deltaU this * exp 0.5 / m_ref_height this
                             * exp (- 0.5 * (Z c / m_ref_height this) * (Z c / m_ref_height this))
                             * Z c
                             * cos (m_Uperiods this * 2 * pi
                                      / (ProbHiArray geom 1 - ProbLoArray geom 1)
                                    * (Y c - ProbLoArray geom 1))
                        else 0))"
  define v where "v = (\<lambda>c. vmean + (if m_perturb_vel this
                        then m_deltaV this * exp 0.5 / m_ref_height this
                             * exp (- 0.5 * (Z c / m_ref_height this) * (Z c / m_ref_height this))
                             * Z c
                             * cos (m_Vperiods this * 2 * pi
                                      / (ProbHiArray geom 0 - ProbLoArray geom 0)
                                    * (X c - ProbLoArray geom 0))
                        else 0))"
  define t where "t = (\<lambda>c. projr (profile_theta (m_thht_d this) (m_thvv_d this)
                                (length (m_theta_heights this)) (Z c)))"
  define kern where "kern = mean_kernel this geom (umean, vmean, wmean)
      (rdiv (m_Uperiods this * 2 * pi) (ProbHiArray geom 1 - ProbLoArray geom 1))
      (rdiv (m_Vperiods this * 2 * pi) (ProbHiArray geom 0 - ProbLoArray geom 0))
      (rdiv (m_deltaU this * exp 0.5) (m_ref_height this))
      (rdiv (m_deltaV this * exp 0.5) (m_ref_height this))"
  have kernel: "kern c f = Inr (f
             \<lparr> velocity := (velocity f) ((c, 0) := u c, (c, 1) := v c, (c, 2) := wmean),
               density := (density f) ((c, 0) := m_rho this),
               temperature := (temperature f) ((c, 0) := temperature f (c, 0) + t c) \<rparr>)"
    for c f
  proof (cases c)
    case (fields i j k)
    have th: "profile_theta (m_thht_d this) (m_thvv_d this) (length (m_theta_heights this))
                (ProbLoArray geom 2 + (real_of_int k + 0.5) * CellSizeArray geom 2)
              = Inr (t c)"
      unfolding t_def fields Z_def prod.case by (rule profile_theta_returns [OF table])
    show ?thesis
      unfolding kern_def
      using mean_kernel_cell [OF th div]
      by (simp add: fields u_def v_def X_def Y_def Z_def)
  qed
  have "ABLFieldInit_call this vbx geom flds = ParallelFor (box_cells vbx) kern flds"
    by (simp add: ABLFieldInit_call_def Let_def mean kern_def)
  also have "\<dots> = Inr
           \<lparr> velocity = (\<lambda>(c, n). if c \<in> set (box_cells vbx) \<and> n < 3
                              then (if n = 0 then u c else if n = 1 then v c else wmean)
                              else velocity flds (c, n)),
             density = (\<lambda>(c, n). if c \<in> set (box_cells vbx) \<and> n = 0 then m_rho this
                              else density flds (c, n)),
             temperature = (\<lambda>(c, n). if c \<in> set (box_cells vbx) \<and> n = 0
                              then temperature flds (c, 0) + t c
                              else temperature flds (c, n)) \<rparr>"
    by (rule ParallelFor_closed_form [OF distinct_box_cells kernel])
  finally show ?thesis
    unfolding u_def v_def t_def set_box_cells .
qed

lemma ctor_Inr_members:
  assumes "ABLFieldInit_ctor init pp fs = Inr this"
  shows "m_perturb_vel this = query (ABL_perturb_velocity pp) (m_perturb_vel init)"
    and "m_ref_height this = query (ABL_perturb_ref_height pp) (m_ref_height init)"
    and "m_Uperiods this = query (ABL_Uperiods pp) (m_Uperiods init)"
    and "m_Vperiods this = query (ABL_Vperiods pp) (m_Vperiods init)"
    and "m_deltaU this = query (ABL_deltaU pp) (m_deltaU init)"
    and "m_deltaV this = query (ABL_deltaV pp) (m_deltaV init)"
    and "m_perturb_theta this = query (ABL_perturb_temperature pp) (m_perturb_theta init)"
    and "m_theta_gauss_mean this = query (ABL_random_gauss_mean pp) (m_theta_gauss_mean init)"
    and "m_theta_gauss_var this = query (ABL_random_gauss_var pp) (m_theta_gauss_var init)"
    and "m_theta_cutoff_height this = query (ABL_cutoff_height pp) (m_theta_cutoff_height init)"
    and "m_deltaT this = query (ABL_theta_amplitude pp) (m_deltaT init)"
    and "m_tke_init this = query (ABL_init_tke pp) (m_tke_init init)"
    and "incflo_density pp = Some (m_rho this)"
  using assms
  by (auto simp: ABLFieldInit_ctor_def getarr_def get_def Let_def bind_f_def stream_extract_def
      split: option.splits if_splits list.splits)

lemma call_cells:
  assumes ctor: "ABLFieldInit_ctor init pp fs = Inr this"
    and table: "m_theta_values this \<noteq> []"
    and mean: "mean_velocity this = Inr (umean, vmean, wmean)"
    and div: "m_perturb_vel this \<longrightarrow> m_ref_height this \<noteq> 0
                \<and> ProbHiArray geom 1 - ProbLoArray geom 1 \<noteq> 0
                \<and> ProbHiArray geom 0 - ProbLoArray geom 0 \<noteq> 0"
  shows "\<exists>flds'. ABLFieldInit_call this vbx geom flds = Inr flds' \<and>
     (\<forall>i j k. contains vbx (i, j, k) \<longrightarrow>
        velocity flds' ((i, j, k), 0) = umean + (if m_perturb_vel this
            then m_deltaU this * exp 0.5 / m_ref_height this
                 * exp (- 0.5 * ((ProbLoArray geom 2 + (real_of_int k + 0.5) * CellSizeArray geom 2)
                                  / m_ref_height this)
                             * ((ProbLoArray geom 2 + (real_of_int k + 0.5) * CellSizeArray geom 2)
                                  / m_ref_height this))
                 * (ProbLoArray geom 2 + (real_of_int k + 0.5) * CellSizeArray geom 2)
                 * cos (m_Uperiods this * 2 * pi / (ProbHiArray geom 1 - ProbLoArray geom 1)
                        * (ProbLoArray geom 1 + (real_of_int j + 0.5) * CellSizeArray geom 1
                           - ProbLoArray geom 1))
            else 0)
      \<and> velocity flds' ((i, j, k), 1) = vmean + (if m_perturb_vel this
            then m_deltaV this * exp 0.5 / m_ref_height this
                 * exp (- 0.5 * ((ProbLoArray geom 2 + (real_of_int k + 0.5) * CellSizeArray geom 2)
                                  / m_ref_height this)
                             * ((ProbLoArray geom 2 + (real_of_int k + 0.5) * CellSizeArray geom 2)
                                  / m_ref_height this))
                 * (ProbLoArray geom 2 + (real_of_int k + 0.5) * CellSizeArray geom 2)
                 * cos (m_Vperiods this * 2 * pi / (ProbHiArray geom 0 - ProbLoArray geom 0)
                        * (ProbLoArray geom 0 + (real_of_int i + 0.5) * CellSizeArray geom 0
                           - ProbLoArray geom 0))
            else 0)
      \<and> velocity flds' ((i, j, k), 2) = wmean
      \<and> density flds' ((i, j, k), 0) = m_rho this
      \<and> (\<exists>theta. profile_theta (m_thht_d this) (m_thvv_d this) (length (m_theta_heights this))
                     (ProbLoArray geom 2 + (real_of_int k + 0.5) * CellSizeArray geom 2) = Inr theta
                 \<and> temperature flds' ((i, j, k), 0) = temperature flds ((i, j, k), 0) + theta))"
proof -
  note t = ctor_Inr_table [OF ctor]
  have inv: "m_thvv_d this \<noteq> []" "length (m_theta_heights this) \<le> length (m_thht_d this)"
      "length (m_theta_heights this) \<le> length (m_thvv_d this)"
    using t table by simp_all
  define T where "T = (\<lambda>z. projr (profile_theta (m_thht_d this) (m_thvv_d this)
                               (length (m_theta_heights this)) z))"
  have ret: "profile_theta (m_thht_d this) (m_thvv_d this) (length (m_theta_heights this)) z
               = Inr (T z)" for z
    unfolding T_def by (rule profile_theta_returns [OF inv])
  note cf = call_closed_form [OF inv mean div, of vbx flds]
  show ?thesis
    unfolding cf by (simp add: ret)
qed


lemma mean_velocity_timetable:
  assumes "ABLFieldInit_ctor init pp fs = Inr this" and "m_vel_timetable this \<noteq> []"
    and "fs (m_vel_timetable this) = Some (time # speed # direction_degrees # rest)"
  shows "mean_velocity this =
           Inr (speed * cos (radians direction_degrees), speed * sin (radians direction_degrees), 0)"
  using ctor_timetable_record [OF assms] assms(2) by (simp add: mean_velocity_def)

lemma example_object:
  obtains this where "ABLFieldInit_ctor example_init example_pp example_files = Inr this"
    and "m_theta_heights this = [0, 100, 500]" and "m_theta_values this = [290, 300, 310]"
    and "m_thht_d this = [0, 100, 500]" and "m_thvv_d this = [290, 300, 310]"
    and "\<not> m_perturb_vel this" and "m_rho this = 1"
    and "m_vel_timetable this = ''inflow.txt''"
proof -
  obtain this where c: "ABLFieldInit_ctor example_init example_pp example_files = Inr this"
    using ctor_succeeds [of example_pp "[0, 100, 500]" "[290, 300, 310]" 1 example_init
        "''inflow.txt''" example_files]
    by (auto simp: example_pp_def example_init_def example_files_def query_def)
  show thesis
    using ctor_Inr_table [OF c] ctor_Inr_members [OF c] ctor_Inr_timetable [OF c]
    by (intro that [OF c]) (simp_all add: example_pp_def example_init_def query_def)
qed

text \<open>
  C3. For an object that the constructor returns in timetable mode, from a file whose
  first three fields are the time, the speed and the direction in degrees, the mean
  velocity that \<^verbatim>\<open>operator()\<close> resolves is
  \<open>(speed * cos (radians direction), speed * sin (radians direction), 0)\<close>. It is
  resolved once, before the loop, and is the velocity of every cell of the box after the
  pass without velocity perturbation (with the perturbation, its terms are added to it,
  see C4).
\<close>

theorem timetable_mean_velocity:
  assumes "ABLFieldInit_ctor init pp fs = Inr this" and "m_vel_timetable this \<noteq> []"
    and "fs (m_vel_timetable this) = Some (time # speed # direction_degrees # rest)"
  shows "mean_velocity this =
           Inr (speed * cos (radians direction_degrees), speed * sin (radians direction_degrees), 0)
       \<and> (m_theta_values this \<noteq> [] \<and> \<not> m_perturb_vel this \<longrightarrow>
           (\<exists>flds'. ABLFieldInit_call this vbx geom flds = Inr flds' \<and>
              (\<forall>i j k. contains vbx (i, j, k) \<longrightarrow>
                 velocity flds' ((i, j, k), 0) = speed * cos (radians direction_degrees)
               \<and> velocity flds' ((i, j, k), 1) = speed * sin (radians direction_degrees)
               \<and> velocity flds' ((i, j, k), 2) = 0)))"
proof (intro conjI impI)
  show mean: "mean_velocity this =
           Inr (speed * cos (radians direction_degrees), speed * sin (radians direction_degrees), 0)"
    using assms by (rule mean_velocity_timetable)
  assume a: "m_theta_values this \<noteq> [] \<and> \<not> m_perturb_vel this"
  then have "m_perturb_vel this \<longrightarrow> m_ref_height this \<noteq> 0
                \<and> ProbHiArray geom 1 - ProbLoArray geom 1 \<noteq> 0
                \<and> ProbHiArray geom 0 - ProbLoArray geom 0 \<noteq> 0"
    by simp
  from call_cells [OF assms(1) _ mean this, of vbx flds] a
  show "\<exists>flds'. ABLFieldInit_call this vbx geom flds = Inr flds' \<and>
              (\<forall>i j k. contains vbx (i, j, k) \<longrightarrow>
                 velocity flds' ((i, j, k), 0) = speed * cos (radians direction_degrees)
               \<and> velocity flds' ((i, j, k), 1) = speed * sin (radians direction_degrees)
               \<and> velocity flds' ((i, j, k), 2) = 0)"
    by auto
qed

text \<open>
  C6. For an object that the constructor returns, with a table that is not empty and a
  mean velocity that resolves, the pass without velocity perturbation returns, and at
  every cell of the box the velocity is the mean vector, the density is \<^verbatim>\<open>m_rho\<close>, and
  the temperature is its value before the pass plus the profile at the height of the
  cell centre.
\<close>

theorem mean_field_pass_unperturbed:
  assumes "ABLFieldInit_ctor init pp fs = Inr this" and "m_theta_values this \<noteq> []"
    and "mean_velocity this = Inr (umean, vmean, wmean)"
    and "\<not> m_perturb_vel this"
  shows "\<exists>flds'. ABLFieldInit_call this vbx geom flds = Inr flds' \<and>
     (\<forall>i j k. contains vbx (i, j, k) \<longrightarrow>
        velocity flds' ((i, j, k), 0) = umean
      \<and> velocity flds' ((i, j, k), 1) = vmean
      \<and> velocity flds' ((i, j, k), 2) = wmean
      \<and> density flds' ((i, j, k), 0) = m_rho this
      \<and> (\<exists>theta. profile_theta (m_thht_d this) (m_thvv_d this) (length (m_theta_heights this))
                     (ProbLoArray geom 2 + (real_of_int k + 0.5) * CellSizeArray geom 2) = Inr theta
                 \<and> temperature flds' ((i, j, k), 0) = temperature flds ((i, j, k), 0) + theta))"
proof -
  have "m_perturb_vel this \<longrightarrow> m_ref_height this \<noteq> 0
                \<and> ProbHiArray geom 1 - ProbLoArray geom 1 \<noteq> 0
                \<and> ProbHiArray geom 0 - ProbLoArray geom 0 \<noteq> 0"
    using assms(4) by simp
  from call_cells [OF assms(1-3) this, of vbx flds] assms(4)
  show ?thesis by auto
qed

text \<open>
  C4. With velocity perturbation, a reference height and domain extents in \<open>x\<close> and \<open>y\<close>
  that are not zero, the pass returns and at every cell of the box the first two velocity
  components are the mean plus the terms of the specification, where \<open>x\<close>, \<open>y\<close>, \<open>z\<close>
  are the coordinates of the cell centre; at a cell with \<open>z = 0\<close> the added terms are
  zero.
\<close>

theorem velocity_perturbation:
  assumes "ABLFieldInit_ctor init pp fs = Inr this" and "m_theta_values this \<noteq> []"
    and "mean_velocity this = Inr (umean, vmean, wmean)"
    and "m_perturb_vel this"
    and "m_ref_height this \<noteq> 0"
    and "ProbHiArray geom 1 - ProbLoArray geom 1 \<noteq> 0"
    and "ProbHiArray geom 0 - ProbLoArray geom 0 \<noteq> 0"
  shows "\<exists>flds'. ABLFieldInit_call this vbx geom flds = Inr flds' \<and>
     (\<forall>i j k. contains vbx (i, j, k) \<longrightarrow>
        (let x = ProbLoArray geom 0 + (real_of_int i + 0.5) * CellSizeArray geom 0;
             y = ProbLoArray geom 1 + (real_of_int j + 0.5) * CellSizeArray geom 1;
             z = ProbLoArray geom 2 + (real_of_int k + 0.5) * CellSizeArray geom 2
         in
           velocity flds' ((i, j, k), 0) =
             umean + m_deltaU this * exp 0.5 / m_ref_height this
                     * exp (- 0.5 * (z / m_ref_height this)\<^sup>2) * z
                     * cos (2 * pi * m_Uperiods this * (y - ProbLoArray geom 1)
                            / (ProbHiArray geom 1 - ProbLoArray geom 1))
         \<and> velocity flds' ((i, j, k), 1) =
             vmean + m_deltaV this * exp 0.5 / m_ref_height this
                     * exp (- 0.5 * (z / m_ref_height this)\<^sup>2) * z
                     * cos (2 * pi * m_Vperiods this * (x - ProbLoArray geom 0)
                            / (ProbHiArray geom 0 - ProbLoArray geom 0))
         \<and> (z = 0 \<longrightarrow> velocity flds' ((i, j, k), 0) = umean
                      \<and> velocity flds' ((i, j, k), 1) = vmean)))"
proof -
  have "m_perturb_vel this \<longrightarrow> m_ref_height this \<noteq> 0
                \<and> ProbHiArray geom 1 - ProbLoArray geom 1 \<noteq> 0
                \<and> ProbHiArray geom 0 - ProbLoArray geom 0 \<noteq> 0"
    using assms by simp
  from call_cells [OF assms(1-3) this, of vbx flds]
  obtain flds' where call: "ABLFieldInit_call this vbx geom flds = Inr flds'"
    and cells: "\<And>i j k. contains vbx (i, j, k) \<Longrightarrow>
        velocity flds' ((i, j, k), 0) = umean + (if m_perturb_vel this
            then m_deltaU this * exp 0.5 / m_ref_height this
                 * exp (- 0.5 * ((ProbLoArray geom 2 + (real_of_int k + 0.5) * CellSizeArray geom 2)
                                  / m_ref_height this)
                             * ((ProbLoArray geom 2 + (real_of_int k + 0.5) * CellSizeArray geom 2)
                                  / m_ref_height this))
                 * (ProbLoArray geom 2 + (real_of_int k + 0.5) * CellSizeArray geom 2)
                 * cos (m_Uperiods this * 2 * pi / (ProbHiArray geom 1 - ProbLoArray geom 1)
                        * (ProbLoArray geom 1 + (real_of_int j + 0.5) * CellSizeArray geom 1
                           - ProbLoArray geom 1))
            else 0)
      \<and> velocity flds' ((i, j, k), 1) = vmean + (if m_perturb_vel this
            then m_deltaV this * exp 0.5 / m_ref_height this
                 * exp (- 0.5 * ((ProbLoArray geom 2 + (real_of_int k + 0.5) * CellSizeArray geom 2)
                                  / m_ref_height this)
                             * ((ProbLoArray geom 2 + (real_of_int k + 0.5) * CellSizeArray geom 2)
                                  / m_ref_height this))
                 * (ProbLoArray geom 2 + (real_of_int k + 0.5) * CellSizeArray geom 2)
                 * cos (m_Vperiods this * 2 * pi / (ProbHiArray geom 0 - ProbLoArray geom 0)
                        * (ProbLoArray geom 0 + (real_of_int i + 0.5) * CellSizeArray geom 0
                           - ProbLoArray geom 0))
            else 0)"
    by blast
  have form: "f * exp (- 0.5 * (z / r) * (z / r)) * z * cos (a * 2 * pi / d * yl)
              = f * exp (- 0.5 * (z / r)\<^sup>2) * z * cos (2 * pi * a * yl / d)"
    for f z r a d yl :: real
  proof -
    have arg: "a * 2 * pi / d * yl = 2 * pi * a * yl / d"
      by simp
    have sq: "- 0.5 * (z / r) * (z / r) = - 0.5 * (z / r)\<^sup>2"
      by (simp add: power2_eq_square)
    show ?thesis
      unfolding arg sq by (rule refl)
  qed
  show ?thesis
  proof (intro exI [of _ flds'] conjI allI impI)
    show "ABLFieldInit_call this vbx geom flds = Inr flds'"
      by (rule call)
  next
    fix i j k assume "contains vbx (i, j, k)"
    note c = cells [OF this, unfolded if_P [OF assms(4)] form]
    have zero: "velocity flds' ((i, j, k), 0) = umean \<and> velocity flds' ((i, j, k), 1) = vmean"
      if "ProbLoArray geom 2 + (real_of_int k + 0.5) * CellSizeArray geom 2 = 0"
      using c unfolding that by simp
    show "let x = ProbLoArray geom 0 + (real_of_int i + 0.5) * CellSizeArray geom 0;
             y = ProbLoArray geom 1 + (real_of_int j + 0.5) * CellSizeArray geom 1;
             z = ProbLoArray geom 2 + (real_of_int k + 0.5) * CellSizeArray geom 2
         in
           velocity flds' ((i, j, k), 0) =
             umean + m_deltaU this * exp 0.5 / m_ref_height this
                     * exp (- 0.5 * (z / m_ref_height this)\<^sup>2) * z
                     * cos (2 * pi * m_Uperiods this * (y - ProbLoArray geom 1)
                            / (ProbHiArray geom 1 - ProbLoArray geom 1))
         \<and> velocity flds' ((i, j, k), 1) =
             vmean + m_deltaV this * exp 0.5 / m_ref_height this
                     * exp (- 0.5 * (z / m_ref_height this)\<^sup>2) * z
                     * cos (2 * pi * m_Vperiods this * (x - ProbLoArray geom 0)
                            / (ProbHiArray geom 0 - ProbLoArray geom 0))
         \<and> (z = 0 \<longrightarrow> velocity flds' ((i, j, k), 0) = umean
                      \<and> velocity flds' ((i, j, k), 1) = vmean)"
      unfolding Let_def using c zero by blast
  qed
qed

theorem timetable_mean_velocity_witness:
  "\<exists>this flds'. ABLFieldInit_ctor example_init example_pp example_files = Inr this
     \<and> mean_velocity this = Inr (8 * cos (radians 270), 8 * sin (radians 270), 0)
     \<and> mean_velocity this = Inr (0, - 8, 0)
     \<and> ABLFieldInit_call this example_box example_geom example_fields = Inr flds'
     \<and> velocity flds' ((1, 0, 1), 0) = 8 * cos (radians 270)
     \<and> velocity flds' ((1, 0, 1), 1) = 8 * sin (radians 270)
     \<and> velocity flds' ((1, 0, 1), 2) = 0"
proof -
  obtain this where c: "ABLFieldInit_ctor example_init example_pp example_files = Inr this"
    and tv: "m_theta_values this = [290, 300, 310]" and np: "\<not> m_perturb_vel this"
    and tt: "m_vel_timetable this = ''inflow.txt''"
    by (rule example_object)
  have f: "example_files (m_vel_timetable this) = Some (241 / 2 # 8 # 270 # [])"
    by (simp add: tt example_files_def)
  have r: "radians 270 = 3 / 2 * pi"
    by (simp add: radians_def)
  note inst = timetable_mean_velocity [OF c _ f, of example_box example_geom example_fields]
  have mean: "mean_velocity this = Inr (8 * cos (radians 270), 8 * sin (radians 270), 0)"
    using inst tt by simp
  obtain flds' where call: "ABLFieldInit_call this example_box example_geom example_fields = Inr flds'"
    and cells: "\<forall>i j k. contains example_box (i, j, k) \<longrightarrow>
                 velocity flds' ((i, j, k), 0) = 8 * cos (radians 270)
               \<and> velocity flds' ((i, j, k), 1) = 8 * sin (radians 270)
               \<and> velocity flds' ((i, j, k), 2) = 0"
    using inst tt tv np by auto
  have "contains example_box (1, 0, 1)"
    by (simp add: contains_def example_box_def)
  with cells have "velocity flds' ((1, 0, 1), 0) = 8 * cos (radians 270)
               \<and> velocity flds' ((1, 0, 1), 1) = 8 * sin (radians 270)
               \<and> velocity flds' ((1, 0, 1), 2) = 0"
    by blast
  moreover have "mean_velocity this = Inr (0, - 8, 0)"
    unfolding mean r cos_3over2_pi sin_3over2_pi by simp
  ultimately show ?thesis
    using c mean call by blast
qed

theorem mean_field_pass_unperturbed_witness:
  "\<exists>this flds'. ABLFieldInit_ctor example_init example_pp example_files = Inr this
     \<and> ABLFieldInit_call this example_box example_geom example_fields = Inr flds'
     \<and> velocity flds' ((0, 1, 1), 0) = 0
     \<and> velocity flds' ((0, 1, 1), 1) = - 8
     \<and> velocity flds' ((0, 1, 1), 2) = 0
     \<and> density flds' ((0, 1, 1), 0) = 1
     \<and> temperature flds' ((0, 1, 1), 0) = temperature example_fields ((0, 1, 1), 0) + 291"
proof -
  obtain this where c: "ABLFieldInit_ctor example_init example_pp example_files = Inr this"
    and th: "m_theta_heights this = [0, 100, 500]" and tv: "m_theta_values this = [290, 300, 310]"
    and thd: "m_thht_d this = [0, 100, 500]" and tvd: "m_thvv_d this = [290, 300, 310]"
    and np: "\<not> m_perturb_vel this" and rho: "m_rho this = 1"
    and tt: "m_vel_timetable this = ''inflow.txt''"
    by (rule example_object)
  have f: "example_files (m_vel_timetable this) = Some (241 / 2 # 8 # 270 # [])"
    by (simp add: tt example_files_def)
  have "mean_velocity this = Inr (8 * cos (radians 270), 8 * sin (radians 270), 0)"
    using mean_velocity_timetable [OF c _ f] tt by simp
  moreover have "radians 270 = 3 / 2 * pi"
    by (simp add: radians_def)
  ultimately have mean: "mean_velocity this = Inr (0, - 8, 0)"
    by (simp only: cos_3over2_pi sin_3over2_pi) simp
  have tvne: "m_theta_values this \<noteq> []"
    by (simp add: tv)
  from mean_field_pass_unperturbed [OF c tvne mean np, of example_box example_geom example_fields]
  obtain flds' where call: "ABLFieldInit_call this example_box example_geom example_fields = Inr flds'"
    and cells: "\<forall>i j k. contains example_box (i, j, k) \<longrightarrow>
        velocity flds' ((i, j, k), 0) = 0
      \<and> velocity flds' ((i, j, k), 1) = - 8
      \<and> velocity flds' ((i, j, k), 2) = 0
      \<and> density flds' ((i, j, k), 0) = m_rho this
      \<and> (\<exists>theta. profile_theta (m_thht_d this) (m_thvv_d this) (length (m_theta_heights this))
                     (ProbLoArray example_geom 2
                      + (real_of_int k + 0.5) * CellSizeArray example_geom 2) = Inr theta
                 \<and> temperature flds' ((i, j, k), 0)
                     = temperature example_fields ((i, j, k), 0) + theta)"
    by blast
  have "contains example_box (0, 1, 1)"
    by (simp add: contains_def example_box_def)
  with cells have cell: "velocity flds' ((0, 1, 1), 0) = 0
      \<and> velocity flds' ((0, 1, 1), 1) = - 8
      \<and> velocity flds' ((0, 1, 1), 2) = 0
      \<and> density flds' ((0, 1, 1), 0) = m_rho this
      \<and> (\<exists>theta. profile_theta (m_thht_d this) (m_thvv_d this) (length (m_theta_heights this))
                     (ProbLoArray example_geom 2
                      + (real_of_int 1 + 0.5) * CellSizeArray example_geom 2) = Inr theta
                 \<and> temperature flds' ((0, 1, 1), 0)
                     = temperature example_fields ((0, 1, 1), 0) + theta)"
    by blast
  have "profile_theta (m_thht_d this) (m_thvv_d this) (length (m_theta_heights this))
                     (ProbLoArray example_geom 2
                      + (real_of_int 1 + 0.5) * CellSizeArray example_geom 2) = Inr 291"
    by (simp add: th thd tvd example_geom_def profile_theta_def theta_step_def rdiv_def upt_rec)
  with cell have "temperature flds' ((0, 1, 1), 0) = temperature example_fields ((0, 1, 1), 0) + 291"
    by auto
  with cell c call rho show ?thesis
    by auto
qed


theorem velocity_perturbation_witness:
  "\<exists>this flds'. ABLFieldInit_ctor example_init example_pp_perturbed no_files = Inr this
     \<and> m_perturb_vel this
     \<and> ABLFieldInit_call this example_box example_geom example_fields = Inr flds'
     \<and> velocity flds' ((0, 1, 0), 0) = 8
     \<and> velocity flds' ((0, 1, 0), 1) = 0
     \<and> velocity flds' ((0, 1, 1), 0) =
           8 + 1 * exp 0.5 / 50 * exp (- 0.5 * (10 / 50)\<^sup>2) * 10
               * cos (2 * pi * 4 * (15 - 0) / (100 - 0))"
proof -
  obtain this where c: "ABLFieldInit_ctor example_init example_pp_perturbed no_files = Inr this"
    using ctor_succeeds [of example_pp_perturbed "[0, 100, 500]" "[290, 300, 310]" 1
        example_init "[]" no_files]
    by (auto simp: example_pp_perturbed_def example_pp_def example_init_def query_def)
  note m = ctor_Inr_members [OF c] and t = ctor_Inr_table [OF c] and tt = ctor_Inr_timetable [OF c]
  have tv: "m_theta_values this \<noteq> []"
    using t by (auto simp: example_pp_perturbed_def example_pp_def)
  have mode: "m_vel_timetable this = []"
    using tt by (simp add: example_pp_perturbed_def example_pp_def example_init_def query_def)
  have "m_vel this = [8, 0, 0]"
    using ctor_constant_velocity [OF c mode]
    by (simp add: example_pp_perturbed_def example_pp_def)
  then have mean: "mean_velocity this = Inr (8, 0, 0)"
    by (simp add: mean_velocity_def mode)
  have p: "m_perturb_vel this" and r: "m_ref_height this = 50"
    and u: "m_deltaU this = 1" "m_Uperiods this = 4"
    using m by (simp_all add: example_pp_perturbed_def example_pp_def example_init_def query_def)
  have g: "ProbHiArray example_geom 1 - ProbLoArray example_geom 1 \<noteq> 0"
      "ProbHiArray example_geom 0 - ProbLoArray example_geom 0 \<noteq> 0"
    by (simp_all add: example_geom_def)
  have r0: "m_ref_height this \<noteq> 0"
    by (simp add: r)
  from velocity_perturbation [OF c tv mean p r0 g, of example_box example_fields]
  obtain flds' where call: "ABLFieldInit_call this example_box example_geom example_fields = Inr flds'"
    and cells: "\<And>i j k. contains example_box (i, j, k) \<Longrightarrow>
        (let x = ProbLoArray example_geom 0 + (real_of_int i + 0.5) * CellSizeArray example_geom 0;
             y = ProbLoArray example_geom 1 + (real_of_int j + 0.5) * CellSizeArray example_geom 1;
             z = ProbLoArray example_geom 2 + (real_of_int k + 0.5) * CellSizeArray example_geom 2
         in
           velocity flds' ((i, j, k), 0) =
             8 + m_deltaU this * exp 0.5 / m_ref_height this
                     * exp (- 0.5 * (z / m_ref_height this)\<^sup>2) * z
                     * cos (2 * pi * m_Uperiods this * (y - ProbLoArray example_geom 1)
                            / (ProbHiArray example_geom 1 - ProbLoArray example_geom 1))
         \<and> velocity flds' ((i, j, k), 1) =
             0 + m_deltaV this * exp 0.5 / m_ref_height this
                     * exp (- 0.5 * (z / m_ref_height this)\<^sup>2) * z
                     * cos (2 * pi * m_Vperiods this * (x - ProbLoArray example_geom 0)
                            / (ProbHiArray example_geom 0 - ProbLoArray example_geom 0))
         \<and> (z = 0 \<longrightarrow> velocity flds' ((i, j, k), 0) = 8
                      \<and> velocity flds' ((i, j, k), 1) = 0))"
    by blast
  have "contains example_box (0, 1, 0)" and "contains example_box (0, 1, 1)"
    by (simp_all add: contains_def example_box_def)
  from cells [OF this(1)] cells [OF this(2)]
  have "velocity flds' ((0, 1, 0), 0) = 8 \<and> velocity flds' ((0, 1, 0), 1) = 0
     \<and> velocity flds' ((0, 1, 1), 0) =
           8 + 1 * exp 0.5 / 50 * exp (- 0.5 * (10 / 50)\<^sup>2) * 10
               * cos (2 * pi * 4 * (15 - 0) / (100 - 0))"
    unfolding Let_def r u by (simp add: example_geom_def)
  with c p call show ?thesis
    by blast
qed

subsection \<open>The stochastic pass\<close>

lemma example_this_constructed:
  "ABLFieldInit_ctor example_init example_pp example_files = Inr example_this"
  by (simp add: ABLFieldInit_ctor_def example_this_def example_init_def example_pp_def
      example_files_def getarr_def get_def query_def stream_extract_def Let_def)


lemma upto_two: "[0..1] = [0, 1::int]"
  by (simp add: upto.simps)

lemma theta_kernel_cases:
  "theta_kernel RN this geom c (theta, e) =
     (if below_cutoff this geom c
      then (theta ((c, 0) := m_deltaT this * sample_of RN this e), advance RN this e)
      else (theta, e))"
  by (cases c)
    (simp add: theta_kernel_def below_cutoff_def sample_of_def advance_def Let_def
      split: prod.splits)

lemma ParallelForRNG_append:
  "ParallelForRNG (xs @ ys) f s = ParallelForRNG ys f (ParallelForRNG xs f s)"
  by (induction xs arbitrary: s) simp_all

lemma ParallelForRNG_engine:
  "snd (ParallelForRNG cells (theta_kernel RN this geom) (theta, e)) =
     (advance RN this ^^ draws this geom cells) e"
proof (induction cells arbitrary: theta e)
  case Nil
  show ?case by (simp add: draws_def)
next
  case (Cons c cs)
  show ?case
    using Cons.IH
    by (simp add: theta_kernel_cases draws_def funpow_swap1)
qed

lemma ParallelForRNG_unchanged:
  assumes "c \<notin> set cells \<or> \<not> below_cutoff this geom c \<or> n \<noteq> 0"
  shows "fst (ParallelForRNG cells (theta_kernel RN this geom) (theta, e)) (c, n) = theta (c, n)"
  using assms
proof (induction cells arbitrary: theta e)
  case Nil
  show ?case by simp
next
  case (Cons c' cs)
  then have "c \<notin> set cs \<or> \<not> below_cutoff this geom c \<or> n \<noteq> 0"
    by auto
  note IH = Cons.IH [OF this]
  show ?case
    using Cons.prems by (auto simp: theta_kernel_cases IH)
qed

lemma ParallelForRNG_value:
  assumes "below_cutoff this geom c" and "c \<notin> set post"
  shows "fst (ParallelForRNG (pre @ c # post) (theta_kernel RN this geom) (theta, e)) (c, 0) =
           m_deltaT this * sample_of RN this ((advance RN this ^^ draws this geom pre) e)"
proof -
  obtain theta1 e1 where s1: "ParallelForRNG pre (theta_kernel RN this geom) (theta, e) = (theta1, e1)"
    by (cases "ParallelForRNG pre (theta_kernel RN this geom) (theta, e)")
  have e1: "e1 = (advance RN this ^^ draws this geom pre) e"
    using ParallelForRNG_engine [of pre RN this geom theta e] s1 by simp
  show ?thesis
    using assms
    by (simp add: ParallelForRNG_append s1 theta_kernel_cases ParallelForRNG_unchanged e1)
qed

lemma tile_loop_cells:
  "tile_loop RN this geom bxs s =
     ParallelForRNG (concat (map box_cells bxs)) (theta_kernel RN this geom) s"
  by (induction bxs arbitrary: s) (simp_all add: ParallelForRNG_append)

lemma draws_append: "draws this geom (xs @ ys) = draws this geom xs + draws this geom ys"
  by (simp add: draws_def)

lemma funpow_add_apply: "(f ^^ (m + n)) x = (f ^^ n) ((f ^^ m) x)"
  by (metis add.commute funpow_add o_apply)

lemma mfiter_loop_length:
  "length (fst (mfiter_loop RN this geom tiling fabs e)) = length fabs"
proof (induction fabs arbitrary: e)
  case Nil
  show ?case by simp
next
  case (Cons fab fabs)
  obtain theta e1 where t: "tile_loop RN this geom (tiling (validbox fab)) (array fab, e) = (theta, e1)"
    by (cases "tile_loop RN this geom (tiling (validbox fab)) (array fab, e)")
  obtain fabs' e2 where r: "mfiter_loop RN this geom tiling fabs e1 = (fabs', e2)"
    by (cases "mfiter_loop RN this geom tiling fabs e1")
  show ?case
    using Cons.IH [of e1] by (simp add: t r)
qed

lemma mfiter_loop_engine:
  "snd (mfiter_loop RN this geom tiling fabs e) =
     (advance RN this ^^ draws this geom (concat (map (visited_cells tiling) fabs))) e"
proof (induction fabs arbitrary: e)
  case Nil
  show ?case by (simp add: draws_def)
next
  case (Cons fab fabs)
  have "snd (tile_loop RN this geom (tiling (validbox fab)) (array fab, e)) =
          (advance RN this ^^ draws this geom (visited_cells tiling fab)) e"
    by (simp add: tile_loop_cells visited_cells_def ParallelForRNG_engine)
  moreover obtain theta e1 where t: "tile_loop RN this geom (tiling (validbox fab)) (array fab, e) = (theta, e1)"
    by (cases "tile_loop RN this geom (tiling (validbox fab)) (array fab, e)")
  moreover obtain fabs' e2 where r: "mfiter_loop RN this geom tiling fabs e1 = (fabs', e2)"
    by (cases "mfiter_loop RN this geom tiling fabs e1")
  ultimately show ?case
    using Cons.IH [of e1]
    by (simp add: draws_append funpow_add_apply)
qed

lemma mfiter_loop_nth:
  assumes "m < length fabs"
  shows "fst (mfiter_loop RN this geom tiling fabs e) ! m =
           (fabs ! m) \<lparr> array :=
              fst (ParallelForRNG (visited_cells tiling (fabs ! m)) (theta_kernel RN this geom)
                    (array (fabs ! m),
                     (advance RN this ^^
                        draws this geom (concat (map (visited_cells tiling) (take m fabs)))) e)) \<rparr>"
  using assms
proof (induction fabs arbitrary: m e)
  case Nil
  then show ?case by simp
next
  case (Cons fab fabs)
  obtain theta e1 where t: "tile_loop RN this geom (tiling (validbox fab)) (array fab, e) = (theta, e1)"
    by (cases "tile_loop RN this geom (tiling (validbox fab)) (array fab, e)")
  obtain fabs' e2 where r: "mfiter_loop RN this geom tiling fabs e1 = (fabs', e2)"
    by (cases "mfiter_loop RN this geom tiling fabs e1")
  have e1: "e1 = (advance RN this ^^ draws this geom (visited_cells tiling fab)) e"
    using t ParallelForRNG_engine [of "visited_cells tiling fab" RN this geom "array fab" e]
    by (simp add: tile_loop_cells visited_cells_def)
  show ?case
  proof (cases m)
    case 0
    then show ?thesis
      using t by (simp add: r draws_def tile_loop_cells visited_cells_def)
  next
    case (Suc m')
    then have "m' < length fabs" using Cons.prems by simp
    from Cons.IH [OF this, of e1] r
    show ?thesis
      by (simp add: Suc t e1 draws_append funpow_add_apply)
  qed
qed


lemma visited_cells_validbox:
  assumes "map validbox xs = map validbox ys"
  shows "map (visited_cells tiling) xs = map (visited_cells tiling) ys"
proof -
  have "map (visited_cells tiling) zs =
          map (\<lambda>bx. concat (map box_cells (tiling bx))) (map validbox zs)" for zs
    by (simp add: visited_cells_def comp_def)
  then show ?thesis
    by (simp only: assms)
qed

lemma perturb_temperature_value:
  assumes "m < length theta_fab" and "visited_cells tiling (theta_fab ! m) = pre @ c # post"
    and "c \<notin> set post" and "below_cutoff this geom c"
  shows "array (fst (perturb_temperature RN tiling this geom theta_fab engine) ! m) (c, 0) =
           m_deltaT this * sample_of RN this
             ((advance RN this ^^
                 (draws this geom (concat (map (visited_cells tiling) (take m theta_fab)))
                  + draws this geom pre)) engine)"
  using assms
  by (simp add: perturb_temperature_def mfiter_loop_nth ParallelForRNG_value funpow_add_apply)

text \<open>
  C5. In the field after the pass, which has the array boxes and valid boxes of the
  field before it: at a cell that the pass visits and whose centre is below the cutoff,
  component 0 is \<^verbatim>\<open>m_deltaT\<close> times a sample that \<open>RandomNormal\<close> returned for
  \<^verbatim>\<open>m_theta_gauss_mean\<close> and \<^verbatim>\<open>m_theta_gauss_var\<close>, and it is that same value whatever the
  field held before (the value is overwritten, not added to); at a cell whose centre is
  at or above the cutoff, at a cell that is not visited, and in every other component,
  the field is unchanged. The distribution of the sample is the generator's.
\<close>

theorem perturb_temperature_overwrites:
  assumes "m < length theta_fab"
  shows "length (fst (perturb_temperature RN tiling this geom theta_fab engine)) = length theta_fab
       \<and> validbox (fst (perturb_temperature RN tiling this geom theta_fab engine) ! m)
           = validbox (theta_fab ! m)
       \<and> (c \<in> set (visited_cells tiling (theta_fab ! m)) \<and> below_cutoff this geom c \<longrightarrow>
            (\<exists>e. \<forall>prior. map validbox prior = map validbox theta_fab \<longrightarrow>
               array (fst (perturb_temperature RN tiling this geom prior engine) ! m) (c, 0)
                 = m_deltaT this * sample_of RN this e))
       \<and> (c \<notin> set (visited_cells tiling (theta_fab ! m)) \<or> \<not> below_cutoff this geom c \<or> n \<noteq> 0 \<longrightarrow>
            array (fst (perturb_temperature RN tiling this geom theta_fab engine) ! m) (c, n)
              = array (theta_fab ! m) (c, n))"
proof (intro conjI impI)
  show "length (fst (perturb_temperature RN tiling this geom theta_fab engine)) = length theta_fab"
    by (simp add: perturb_temperature_def mfiter_loop_length)
  show "validbox (fst (perturb_temperature RN tiling this geom theta_fab engine) ! m)
           = validbox (theta_fab ! m)"
    using assms by (simp add: perturb_temperature_def mfiter_loop_nth)
next
  assume "c \<notin> set (visited_cells tiling (theta_fab ! m)) \<or> \<not> below_cutoff this geom c \<or> n \<noteq> 0"
  then show "array (fst (perturb_temperature RN tiling this geom theta_fab engine) ! m) (c, n)
              = array (theta_fab ! m) (c, n)"
    using assms by (simp add: perturb_temperature_def mfiter_loop_nth ParallelForRNG_unchanged)
next
  assume a: "c \<in> set (visited_cells tiling (theta_fab ! m)) \<and> below_cutoff this geom c"
  then obtain pre post where split: "visited_cells tiling (theta_fab ! m) = pre @ c # post"
    and last: "c \<notin> set post"
    using split_list_last [of c "visited_cells tiling (theta_fab ! m)"] by blast
  let ?e = "(advance RN this ^^
                 (draws this geom (concat (map (visited_cells tiling) (take m theta_fab)))
                  + draws this geom pre)) engine"
  have "array (fst (perturb_temperature RN tiling this geom prior engine) ! m) (c, 0)
                 = m_deltaT this * sample_of RN this ?e"
    if same: "map validbox prior = map validbox theta_fab" for prior
  proof -
    note v = visited_cells_validbox [OF same, of tiling]
    have len: "length prior = length theta_fab"
      using same by (metis length_map)
    then have m: "m < length prior"
      using assms by simp
    have "visited_cells tiling (prior ! m) = visited_cells tiling (theta_fab ! m)"
      using v m len by (metis nth_map)
    moreover have "map (visited_cells tiling) (take m prior)
                     = map (visited_cells tiling) (take m theta_fab)"
      using v by (simp add: take_map [symmetric])
    ultimately show ?thesis
      using perturb_temperature_value [OF m _ last, of tiling pre this geom RN engine] split a
      by simp
  qed
  then show "\<exists>e. \<forall>prior. map validbox prior = map validbox theta_fab \<longrightarrow>
               array (fst (perturb_temperature RN tiling this geom prior engine) ! m) (c, 0)
                 = m_deltaT this * sample_of RN this e"
    by blast
qed

theorem perturb_temperature_overwrites_witness:
  "below_cutoff example_this_cutoff example_geom (1, 0, 0)
   \<and> \<not> below_cutoff example_this_cutoff example_geom (1, 0, 1)
   \<and> array (example_multifab ! 0) ((1, 0, 0), 0) = 300
   \<and> array (fst (perturb_temperature counting_normal one_tile
                    example_this_cutoff example_geom example_multifab 0) ! 0) ((1, 0, 0), 0)
       = 4 / 5
   \<and> array (fst (perturb_temperature counting_normal one_tile
                    example_this_cutoff example_geom example_multifab 0) ! 0) ((1, 0, 1), 0)
       = 300"
  using perturb_temperature_overwrites [of 0 example_multifab counting_normal one_tile
      example_this_cutoff example_geom 0 "(1, 0, 1)" 0]
  by (simp add: perturb_temperature_def example_multifab_def example_box_def one_tile_def
      box_cells_def upto_two theta_kernel_def example_geom_def below_cutoff_def
      example_this_cutoff_def example_this_def example_init_def counting_normal_def Let_def)

text \<open>
  C2. The draw of a cell depends on how the region is cut into tiles: on the same field,
  with the same generator and the same initial engine, the pass writes \<open>16 / 5\<close> to the
  cell \<open>(0, 0, 1)\<close> when the valid box is one tile and \<open>8 / 5\<close> when it is cut along
  \<open>j\<close>.
\<close>

theorem draw_depends_on_tiling:
  "array (hd (fst (perturb_temperature counting_normal one_tile
                     example_this example_geom example_multifab 0))) ((0, 0, 1), 0) = 16 / 5
   \<and> array (hd (fst (perturb_temperature counting_normal tiles_along_j
                     example_this example_geom example_multifab 0))) ((0, 0, 1), 0) = 8 / 5"
  by (simp add: perturb_temperature_def example_multifab_def example_box_def one_tile_def
      tiles_along_j_def box_cells_def upto_two theta_kernel_def example_geom_def
      example_this_def example_init_def counting_normal_def Let_def)


text \<open>
  C2, as the code has it. The kernel draws from the engine that the pass hands from cell
  to cell. A cell below the cutoff, last visited after the cells \<open>pre\<close> of its array
  box, gets \<^verbatim>\<open>m_deltaT\<close> times the sample drawn on the initial engine advanced once for
  every draw made before it: those of the array boxes before its own and those of
  \<open>pre\<close>. The draw is so determined by the initial engine and the position of the
  cell in the visiting order, not by the index of the cell.
\<close>

theorem draw_by_visiting_order:
  assumes "m < length theta_fab" and "visited_cells tiling (theta_fab ! m) = pre @ c # post"
    and "c \<notin> set post" and "below_cutoff this geom c"
  shows "array (fst (perturb_temperature RN tiling this geom theta_fab engine) ! m) (c, 0) =
           m_deltaT this * sample_of RN this
             ((advance RN this ^^
                 (draws this geom (concat (map (visited_cells tiling) (take m theta_fab)))
                  + draws this geom pre)) engine)"
  using assms by (rule perturb_temperature_value)

lemma example_visited_cells:
  "visited_cells one_tile (example_multifab ! 0) =
     [(0, 0, 0), (1, 0, 0), (0, 1, 0), (1, 1, 0)] @ (0, 0, 1) # [(1, 0, 1), (0, 1, 1), (1, 1, 1)]"
  by (simp add: visited_cells_def one_tile_def example_multifab_def example_box_def
      box_cells_def upto_two)

theorem draw_by_visiting_order_witness:
  "visited_cells one_tile (example_multifab ! 0) =
     [(0, 0, 0), (1, 0, 0), (0, 1, 0), (1, 1, 0)] @ (0, 0, 1) # [(1, 0, 1), (0, 1, 1), (1, 1, 1)]
   \<and> below_cutoff example_this example_geom (0, 0, 1)
   \<and> draws example_this example_geom [(0, 0, 0), (1, 0, 0), (0, 1, 0), (1, 1, 0)] = 4
   \<and> array (fst (perturb_temperature counting_normal one_tile
                    example_this example_geom example_multifab 0) ! 0) ((0, 0, 1), 0)
       = m_deltaT example_this * sample_of counting_normal example_this 4
   \<and> m_deltaT example_this * sample_of counting_normal example_this 4 = 16 / 5"
proof -
  have b: "below_cutoff example_this example_geom (0, 0, 1)"
    by (simp add: below_cutoff_def example_this_def example_init_def example_geom_def)
  have d: "draws example_this example_geom [(0, 0, 0), (1, 0, 0), (0, 1, 0), (1, 1, 0)] = 4"
    by (simp add: draws_def below_cutoff_def example_this_def example_init_def example_geom_def)
  have d0: "draws example_this example_geom [] = 0"
    by (simp add: draws_def)
  have a: "(advance counting_normal example_this ^^ 4) 0 = 4"
    by (simp add: advance_def counting_normal_def eval_nat_numeral)
  have m: "0 < length example_multifab"
    by (simp add: example_multifab_def)
  from draw_by_visiting_order [OF m example_visited_cells _ b, of counting_normal 0]
  have "array (fst (perturb_temperature counting_normal one_tile
                    example_this example_geom example_multifab 0) ! 0) ((0, 0, 1), 0)
       = m_deltaT example_this * sample_of counting_normal example_this 4"
    by (simp add: d d0 a)
  moreover have "m_deltaT example_this * sample_of counting_normal example_this 4 = 16 / 5"
    by (simp add: sample_of_def counting_normal_def example_this_def example_init_def)
  ultimately show ?thesis
    using example_visited_cells b d by blast
qed

subsection \<open>The turbulent kinetic energy\<close>

lemma contains_grow:
  assumes "contains bx c" and "0 \<le> n"
  shows "contains (grow bx n) c"
  using assms by (cases c) (auto simp: contains_def grow_def split: prod.splits)

text \<open>
  C9. After \<^verbatim>\<open>init_tke\<close> the field has the valid boxes it had, and every cell of every
  valid box holds \<^verbatim>\<open>m_tke_init\<close> in every component; on a field with no array box the
  pass changes nothing. The pass has no other field.
\<close>

theorem init_tke_fills:
  "map validbox (init_tke this geom tke) = map validbox tke
   \<and> (\<forall>fab \<in> set (init_tke this geom tke). \<forall>c n.
         contains (validbox fab) c \<longrightarrow> array fab (c, n) = m_tke_init this)
   \<and> init_tke this geom [] = []"
  by (auto simp: init_tke_def setVal_def contains_grow comp_def)


theorem init_tke_fills_witness:
  "map validbox (init_tke example_this example_geom example_multifab) = [example_box]
   \<and> array (hd (init_tke example_this example_geom example_multifab)) ((1, 1, 1), 0) = 1 / 10
   \<and> array (hd (init_tke example_this example_geom example_multifab)) ((0, 1, 0), 0) = 1 / 10
   \<and> init_tke example_this example_geom [] = []"
  using init_tke_fills [of example_this example_geom example_multifab]
  by (simp add: init_tke_def setVal_def example_multifab_def example_box_def contains_def
      grow_def example_this_def example_init_def)

end
